theory Spec2Isabelle
  imports Main
begin

section \<open>JavaScript values used by the Exchange calendar integration\<close>

text \<open>
  Strings are lists of characters; the model covers strings whose code units are below 256.
  A thrown value is either an instance of \<open>Error\<close> carrying its message, or some other
  thrown value (the EWS library also rejects with objects that are not \<open>Error\<close> instances).
\<close>

datatype exn = Error string | NonError string

fun startsWith :: "string \<Rightarrow> string \<Rightarrow> bool" where
  "startsWith s [] = True"
| "startsWith [] (p # ps) = False"
| "startsWith (c # cs) (p # ps) = (c = p \<and> startsWith cs ps)"

text \<open>
  The string method \<open>includes\<close>, named \<open>includesStr\<close> here: the pattern occurs at some
  position.
\<close>

fun includesStr :: "string \<Rightarrow> string \<Rightarrow> bool" where
  "includesStr [] p = (p = [])"
| "includesStr (c # cs) p = (startsWith (c # cs) p \<or> includesStr cs p)"

definition lowerChar :: "char \<Rightarrow> char" where
  "lowerChar c =
     (let n = (of_char c :: nat)
      in if (65 \<le> n \<and> n \<le> 90) \<or> (192 \<le> n \<and> n \<le> 222 \<and> n \<noteq> 215)
         then char_of (n + 32) else c)"

definition toLowerCase :: "string \<Rightarrow> string" where
  "toLowerCase s = map lowerChar s"

text \<open>The class \<open>\s\<close> of a JavaScript regular expression, on code units below 256.\<close>

definition isSpace :: "char \<Rightarrow> bool" where
  "isSpace c = ((of_char c :: nat) \<in> {9, 10, 11, 12, 13, 32, 160})"

section \<open>The enums\<close>

text \<open>
  Modelled from the spec: the declarations of \<open>ExchangeAuthentication\<close> and
  \<open>ExchangeVersion\<close> (\<open>enums.ts\<close>) are not among the sources. The spec gives
  \<open>enum{STANDARD, NTLM}\<close> and an ordinal version enum; the route handler accepts the
  numbers 0..1 and 0..8, and the resolution notes list \<open>Exchange2016 = 7\<close> and
  \<open>Exchange2019 = 8\<close>. The members are numbered in declaration order.
\<close>

definition STANDARD :: int where "STANDARD = 0"
definition NTLM :: int where "NTLM = 1"

definition Exchange2007_SP1 :: int where "Exchange2007_SP1 = 0"
definition Exchange2010 :: int where "Exchange2010 = 1"
definition Exchange2010_SP1 :: int where "Exchange2010_SP1 = 2"
definition Exchange2010_SP2 :: int where "Exchange2010_SP2 = 3"
definition Exchange2013 :: int where "Exchange2013 = 4"
definition Exchange2013_SP1 :: int where "Exchange2013_SP1 = 5"
definition Exchange2015 :: int where "Exchange2015 = 6"
definition Exchange2016 :: int where "Exchange2016 = 7"
definition Exchange2019 :: int where "Exchange2019 = 8"

text \<open>
  \<open>Object.values\<close> of a numeric enum lists the member names and the member numbers;
  a number is among them exactly when it is the number of a member.
\<close>

definition ExchangeAuthentication_values :: "int list" where
  "ExchangeAuthentication_values = [STANDARD, NTLM]"

definition ExchangeVersion_values :: "int list" where
  "ExchangeVersion_values =
     [Exchange2007_SP1, Exchange2010, Exchange2010_SP1, Exchange2010_SP2, Exchange2013,
      Exchange2013_SP1, Exchange2015, Exchange2016, Exchange2019]"

section \<open>The configuration validator\<close>

text \<open>
  \<open>Partial<ExchangeConfig>\<close>: every field may be absent. The enum fields hold numbers.
\<close>

record ExchangeConfig =
  url :: "string option"
  username :: "string option"
  password :: "string option"
  authenticationMethod :: "int option"
  exchangeVersion :: "int option"
  useCompression :: "bool option"

text \<open>
  The platform's \<open>URL\<close> class is a parameter of the model: \<open>newURL s\<close> is \<open>None\<close> where
  \<open>new URL(s)\<close> throws, and otherwise the two properties the validator reads.
\<close>

record URL =
  protocol :: string
  pathname :: string

definition isValidEwsUrl :: "(string \<Rightarrow> URL option) \<Rightarrow> string \<Rightarrow> bool" where
  "isValidEwsUrl newURL u =
     (case newURL u of
        None \<Rightarrow> False
      | Some urlObj \<Rightarrow>
          if protocol urlObj \<noteq> ''https:'' then False
          else (let path = toLowerCase (pathname urlObj)
                in includesStr path ''/ews/'' \<or> includesStr path ''/exchange.asmx''
                   \<or> includesStr path ''/microsoft-server-activesync''))"

text \<open>
  The test of the regular expression \<open>^[^\s@]+@[^\s@]+\.[^\s@]+$\<close>: a non-empty run of
  admissible characters, an at sign, and a rest of admissible characters that has a dot
  neither at its first nor at its last position.
\<close>

definition emailChar :: "char \<Rightarrow> bool" where
  "emailChar c = (\<not> isSpace c \<and> c \<noteq> CHR ''@'')"

definition isValidEmail :: "string \<Rightarrow> bool" where
  "isValidEmail email =
     (takeWhile emailChar email \<noteq> [] \<and>
      (case dropWhile emailChar email of
         [] \<Rightarrow> False
       | c # rest \<Rightarrow> c = CHR ''@'' \<and> list_all emailChar rest
                     \<and> CHR ''.'' \<in> set (butlast (tl rest))))"

record ValidationResult =
  isValid :: bool
  errors :: "string list"

definition validate :: "(string \<Rightarrow> URL option) \<Rightarrow> ExchangeConfig \<Rightarrow> ValidationResult" where
  "validate newURL config =
     (let errors0 = [];
          errors1 =
            (case url config of
               None \<Rightarrow> errors0 @ [''Exchange URL is required'']
             | Some u \<Rightarrow>
                 if u = [] then errors0 @ [''Exchange URL is required'']
                 else if \<not> isValidEwsUrl newURL u
                 then errors0 @ [''URL must be a valid Exchange Web Services (EWS) endpoint (e.g., https://mail.company.com/ews/Exchange.asmx)'']
                 else errors0);
          errors2 =
            (case username config of
               None \<Rightarrow> errors1 @ [''Username is required'']
             | Some n \<Rightarrow>
                 if n = [] then errors1 @ [''Username is required'']
                 else if \<not> isValidEmail n
                 then errors1 @ [''Username must be a valid email address'']
                 else errors1);
          errors3 =
            (case password config of
               None \<Rightarrow> errors2 @ [''Password is required'']
             | Some p \<Rightarrow>
                 if p = [] then errors2 @ [''Password is required'']
                 else if length p < 1 then errors2 @ [''Password cannot be empty'']
                 else errors2);
          errors4 =
            (case authenticationMethod config of
               None \<Rightarrow> errors3
             | Some m \<Rightarrow>
                 if m \<notin> set ExchangeAuthentication_values
                 then errors3 @ [''Invalid authentication method'']
                 else errors3);
          errors5 =
            (case exchangeVersion config of
               None \<Rightarrow> errors4
             | Some v \<Rightarrow>
                 if v \<notin> set ExchangeVersion_values
                 then errors4 @ [''Invalid Exchange version'']
                 else errors4)
      in \<lparr>isValid = (length errors5 = 0), errors = errors5\<rparr>)"

text \<open>
  \<open>getSuggestions\<close> parses the URL outside any \<open>try\<close>: where \<open>new URL\<close> throws, the
  call throws the platform's \<open>TypeError\<close>. A number is truthy when it is not zero.
\<close>

definition getSuggestions :: "(string \<Rightarrow> URL option) \<Rightarrow> ExchangeConfig \<Rightarrow> exn + string list" where
  "getSuggestions newURL config =
     (let suggestions0 = [];
          afterUrl =
            (case url config of
               None \<Rightarrow> Inr suggestions0
             | Some u \<Rightarrow>
                 if u = [] then Inr suggestions0
                 else (case newURL u of
                         None \<Rightarrow> Inl (Error ''Invalid URL'')
                       | Some urlObj \<Rightarrow>
                           (let s1 = (if protocol urlObj = ''http:''
                                      then suggestions0 @ [''Consider using HTTPS instead of HTTP for better security'']
                                      else suggestions0);
                                s2 = (if \<not> includesStr (toLowerCase (pathname urlObj)) ''/ews/''
                                      then s1 @ [''EWS URL typically ends with '/ews/Exchange.asmx'' @ [CHR 0x27] ]
                                      else s1)
                            in Inr s2)))
      in case afterUrl of
           Inl e \<Rightarrow> Inl e
         | Inr suggestions2 \<Rightarrow>
             (let suggestions3 =
                    (if authenticationMethod config = Some NTLM
                     then suggestions2 @ [''NTLM authentication may require NODE_OPTIONS='--openssl-legacy-provider' for older Exchange servers'']
                     else suggestions2);
                  suggestions4 =
                    (case exchangeVersion config of
                       None \<Rightarrow> suggestions3
                     | Some v \<Rightarrow>
                         if v \<noteq> 0 \<and> v < Exchange2013
                         then suggestions3 @ [''Consider upgrading to Exchange 2013 or later for better compatibility'']
                         else suggestions3)
              in Inr suggestions4))"

section \<open>The parsed credential payload\<close>

text \<open>
  The payload is whatever \<open>JSON.parse\<close> returned. Numbers are modelled by integers (the
  enum members are integers). \<open>JUndefined\<close> is the value of a property that is absent.
\<close>

datatype json =
    JUndefined
  | JNull
  | JBool bool
  | JNum int
  | JStr string
  | JArr "json list"
  | JObj "(string \<times> json) list"

text \<open>Truthiness, as \<open>!x\<close> and \<open>if (x)\<close> test it.\<close>

fun truthy :: "json \<Rightarrow> bool" where
  "truthy JUndefined = False"
| "truthy JNull = False"
| "truthy (JBool b) = b"
| "truthy (JNum n) = (n \<noteq> 0)"
| "truthy (JStr s) = (s \<noteq> [])"
| "truthy (JArr xs) = True"
| "truthy (JObj kvs) = True"

text \<open>
  Reading one of the configuration properties: \<open>payload?.url\<close> is undefined when the payload
  is null, and the property is absent on every value that is not an object. The reads without
  \<open>?.\<close> come after the check that three such reads are truthy, so the payload is an object
  there.
\<close>

fun getProp :: "json \<Rightarrow> string \<Rightarrow> json" where
  "getProp (JObj kvs) k = (case map_of kvs k of None \<Rightarrow> JUndefined | Some v \<Rightarrow> v)"
| "getProp v k = JUndefined"

section \<open>The EWS object model\<close>

text \<open>Instants are milliseconds since the epoch; an ISO string round trip keeps them.\<close>

type_synonym DateTime = int

datatype LegacyFreeBusyStatus = Free | Tentative | Busy | OOF | WorkingElsewhere | NoData

record Appointment =
  ItemId :: "string option"
  Subject :: string
  Start :: DateTime
  End :: DateTime
  Location :: string
  Body :: string
  RequiredAttendees :: "string list"
  FreeBusyStatus :: LegacyFreeBusyStatus

record Folder =
  FolderId :: string
  ParentFolderId :: string
  DisplayName :: "string option"
  ChildFolderCount :: int

text \<open>
  The client handle. \<open>serviceId\<close> is the identity of the object: the number of handles the
  adapter had constructed before this one. \<open>XHRApi\<close> is \<open>None\<close> for the library's default
  transport and holds the credentials of the NTLM transport otherwise (certificate checks off,
  timeout 30000). \<open>RequestedServerVersion\<close> is a number: the library's constructor keeps an
  argument that is a number, whatever it is, and requests its default \<open>Exchange2013_SP1\<close>
  for an argument of any other type.
\<close>

record ExchangeService =
  serviceId :: nat
  RequestedServerVersion :: int
  Credentials :: "json \<times> json"
  Url :: json
  XHRApi :: "(json \<times> json) option"

text \<open>
  The EWS client library and the server behind it are a parameter: the constructors may throw,
  \<open>DateTime.Parse\<close> throws on a string that is not a date, and every remote call takes the
  state \<open>'w\<close> of the world and returns the next one. When several queries of one
  availability request are rejected, the timing of the network decides which rejection comes
  first; \<open>firstToReject\<close> is its number among the rejections.
\<close>

definition requestedVersion :: "json \<Rightarrow> int" where
  "requestedVersion v = (case v of JNum n \<Rightarrow> n | _ \<Rightarrow> Exchange2013_SP1)"

record 'w Ews =
  newExchangeService :: "json \<Rightarrow> exn option"
  newWebCredentials :: "json \<Rightarrow> json \<Rightarrow> exn option"
  newUri :: "json \<Rightarrow> exn option"
  ntlmXhr :: "json \<Rightarrow> json \<Rightarrow> exn option"
  DateTime_Parse :: "string \<Rightarrow> exn + DateTime"
  Appointment_Bind :: "ExchangeService \<Rightarrow> string \<Rightarrow> 'w \<Rightarrow> (exn + Appointment) \<times> 'w"
  Save :: "ExchangeService \<Rightarrow> Appointment \<Rightarrow> 'w \<Rightarrow> (exn + string) \<times> 'w"
  Update :: "ExchangeService \<Rightarrow> Appointment \<Rightarrow> 'w \<Rightarrow> exn option \<times> 'w"
  Delete :: "ExchangeService \<Rightarrow> Appointment \<Rightarrow> 'w \<Rightarrow> exn option \<times> 'w"
  Folder_Bind_DeletedItems :: "ExchangeService \<Rightarrow> 'w \<Rightarrow> (exn + Folder) \<times> 'w"
  FindFolders :: "ExchangeService \<Rightarrow> 'w \<Rightarrow> (exn + Folder list) \<times> 'w"
  FindAppointments ::
    "ExchangeService \<Rightarrow> string \<Rightarrow> DateTime \<Rightarrow> DateTime \<Rightarrow> 'w \<Rightarrow> (exn + Appointment list) \<times> 'w"
  firstToReject :: "'w \<Rightarrow> nat"

section \<open>The host's calendar model\<close>

record Person =
  email :: string

record Team =
  members :: "Person list"

record CalendarEvent =
  title :: string
  startTime :: string
  endTime :: string
  location :: "string option"
  description :: "string option"
  attendees :: "Person list"
  team :: "Team option"

record NewCalendarEventType =
  uid :: string
  id' :: string
  password' :: string
  type' :: string
  url' :: string
  additionalInfo :: "(string \<times> json) list"

record IntegrationCalendar =
  externalId :: string
  name :: string
  primary :: bool
  integration :: string

record EventBusyDate =
  start :: DateTime
  end' :: DateTime

section \<open>The calendar service adapter\<close>

text \<open>
  \<open>servicesConstructed\<close> counts the evaluations of \<open>new ExchangeService\<close> by this adapter;
  it is not a field of the source and is read only to number the handles.
\<close>

record ExchangeCalendarService =
  integrationName :: string
  payload :: json
  exchangeService :: "ExchangeService option"
  servicesConstructed :: nat

record CredentialPayload =
  key :: "string option"

text \<open>\<open>x || ""\<close> on an optional string.\<close>

definition orEmpty :: "string option \<Rightarrow> string" where
  "orEmpty x = (case x of None \<Rightarrow> [] | Some s \<Rightarrow> s)"

text \<open>
  The constructor. \<open>symmetricDecrypt\<close> and \<open>JSON.parse\<close> are parameters; \<open>envKey\<close> is
  the process-wide secret, absent or present. Any throw inside the \<open>try\<close> becomes the one
  error of the \<open>catch\<close>.
\<close>

definition newExchangeCalendarService ::
  "(string \<Rightarrow> string \<Rightarrow> exn + string) \<Rightarrow> (string \<Rightarrow> exn + json) \<Rightarrow> string option
   \<Rightarrow> CredentialPayload \<Rightarrow> exn + ExchangeCalendarService" where
  "newExchangeCalendarService symmetricDecrypt JSON_parse envKey credential =
     (case symmetricDecrypt (orEmpty (key credential)) (orEmpty envKey) of
        Inl error \<Rightarrow> Inl (Error ''Invalid or corrupted Exchange credentials'')
      | Inr text \<Rightarrow>
          (case JSON_parse text of
             Inl error \<Rightarrow> Inl (Error ''Invalid or corrupted Exchange credentials'')
           | Inr parsed \<Rightarrow>
               Inr \<lparr>integrationName = ''exchange_calendar'', payload = parsed,
                    exchangeService = None, servicesConstructed = 0\<rparr>))"

text \<open>The inner \<open>catch\<close> of the NTLM set-up: what it throws for the error it caught.\<close>

definition ntlmFailure :: "exn \<Rightarrow> exn" where
  "ntlmFailure ntlmError =
     (case ntlmError of
        Error m \<Rightarrow>
          if includesStr m ''digital envelope routines::unsupported''
          then Error (''Node.js OpenSSL compatibility issue with NTLM authentication. Please set NODE_OPTIONS=''
                      @ [CHR 0x22] @ ''--openssl-legacy-provider'' @ [CHR 0x22]
                      @ '' in your environment or use Basic authentication instead.'')
          else Error (''NTLM authentication failed: '' @ m
                      @ ''. Consider using Basic authentication instead.'')
      | NonError v \<Rightarrow>
          Error (''NTLM authentication failed: '' @ ''Unknown error''
                 @ ''. Consider using Basic authentication instead.''))"

text \<open>The body of the outer \<open>try\<close>: the value it produces or the error it throws.\<close>

definition buildService ::
  "'w Ews \<Rightarrow> ExchangeCalendarService \<Rightarrow> (exn + ExchangeService) \<times> ExchangeCalendarService" where
  "buildService lib a =
     (let p = payload a in
      if \<not> truthy (getProp p ''url'') \<or> \<not> truthy (getProp p ''username'')
         \<or> \<not> truthy (getProp p ''password'')
      then (Inl (Error ''Missing required Exchange configuration parameters''), a)
      else
        (case newExchangeService lib (getProp p ''exchangeVersion'') of
           Some e \<Rightarrow> (Inl e, a)
         | None \<Rightarrow>
             (let a1 = a\<lparr>servicesConstructed := Suc (servicesConstructed a)\<rparr> in
              case newWebCredentials lib (getProp p ''username'') (getProp p ''password'') of
                Some e \<Rightarrow> (Inl e, a1)
              | None \<Rightarrow>
                  (case newUri lib (getProp p ''url'') of
                     Some e \<Rightarrow> (Inl e, a1)
                   | None \<Rightarrow>
                       (let service =
                              \<lparr>serviceId = servicesConstructed a,
                               RequestedServerVersion = requestedVersion (getProp p ''exchangeVersion''),
                               Credentials = (getProp p ''username'', getProp p ''password''),
                               Url = getProp p ''url'',
                               XHRApi = None\<rparr>
                        in if getProp p ''authenticationMethod'' = JNum NTLM
                           then (case ntlmXhr lib (getProp p ''username'') (getProp p ''password'') of
                                   Some ntlmError \<Rightarrow> (Inl (ntlmFailure ntlmError), a1)
                                 | None \<Rightarrow>
                                     (Inr (service\<lparr>XHRApi :=
                                             Some (getProp p ''username'', getProp p ''password'')\<rparr>), a1))
                           else (case newWebCredentials lib (getProp p ''username'') (getProp p ''password'') of
                                   Some e \<Rightarrow> (Inl e, a1)
                                 | None \<Rightarrow>
                                     (Inr (service\<lparr>Credentials :=
                                             (getProp p ''username'', getProp p ''password'')\<rparr>), a1)))))))"

text \<open>The outer \<open>catch\<close>: the error it throws for the error it caught.\<close>

definition classify :: "exn \<Rightarrow> exn" where
  "classify error =
     (case error of
        NonError v \<Rightarrow> error
      | Error m \<Rightarrow>
          if includesStr m ''NODE_OPTIONS'' \<or> includesStr m ''Missing required''
             \<or> includesStr m ''NTLM authentication failed''
          then error
          else if includesStr m ''401'' \<or> includesStr m ''Unauthorized''
          then Error ''Authentication failed. Please verify your username, password, and ensure the account has proper Exchange permissions.''
          else if includesStr m ''timeout'' \<or> includesStr m ''ECONNREFUSED''
                  \<or> includesStr m ''ENOTFOUND''
          then Error ''Cannot connect to Exchange server. Please verify the EWS URL is correct and the server is accessible.''
          else if includesStr m ''certificate'' \<or> includesStr m ''SSL'' \<or> includesStr m ''TLS''
          then Error ''SSL/TLS certificate issue. Your Exchange server may be using a self-signed certificate.''
          else if includesStr m ''digital envelope routines::unsupported''
          then Error (''Node.js OpenSSL compatibility issue. Please set NODE_OPTIONS=''
                      @ [CHR 0x22] @ ''--openssl-legacy-provider'' @ [CHR 0x22]
                      @ '' or upgrade your Exchange server configuration.'')
          else error)"

definition getExchangeService ::
  "'w Ews \<Rightarrow> ExchangeCalendarService \<Rightarrow> (exn + ExchangeService) \<times> ExchangeCalendarService" where
  "getExchangeService lib a =
     (case exchangeService a of
        Some cached \<Rightarrow> (Inr cached, a)
      | None \<Rightarrow>
          (case buildService lib a of
             (Inr service, a1) \<Rightarrow> (Inr service, a1\<lparr>exchangeService := Some service\<rparr>)
           | (Inl error, a1) \<Rightarrow> (Inl (classify error), a1)))"

definition cleanup :: "ExchangeCalendarService \<Rightarrow> ExchangeCalendarService" where
  "cleanup a =
     (case exchangeService a of
        Some cached \<Rightarrow> a\<lparr>exchangeService := None\<rparr>
      | None \<Rightarrow> a)"

subsection \<open>Events\<close>

text \<open>A fresh \<open>Appointment\<close>: no identifier yet and no attendee.\<close>

definition newAppointment :: Appointment where
  "newAppointment =
     \<lparr>ItemId = None, Subject = [], Start = 0, End = 0, Location = [], Body = [],
      RequiredAttendees = [], FreeBusyStatus = Busy\<rparr>"

text \<open>
  The assignments shared by \<open>createEvent\<close> and \<open>updateEvent\<close>: each \<open>forEach\<close> adds one
  attendee entry per person to the end of the collection. A start or end time that is not a
  date makes \<open>DateTime.Parse\<close> throw, before anything is sent to the server.
\<close>

definition addAttendees :: "Person list \<Rightarrow> Appointment \<Rightarrow> Appointment" where
  "addAttendees people appointment =
     foldl (\<lambda>ap person. ap\<lparr>RequiredAttendees := RequiredAttendees ap @ [email person]\<rparr>)
       appointment people"

definition fillAppointment ::
  "'w Ews \<Rightarrow> CalendarEvent \<Rightarrow> Appointment \<Rightarrow> exn + Appointment" where
  "fillAppointment lib event appointment =
     (let ap1 = appointment\<lparr>Subject := title event\<rparr> in
      case DateTime_Parse lib (startTime event) of
        Inl e \<Rightarrow> Inl e
      | Inr parsedStart \<Rightarrow>
          (let ap2 = ap1\<lparr>Start := parsedStart\<rparr> in
           case DateTime_Parse lib (endTime event) of
             Inl e \<Rightarrow> Inl e
           | Inr parsedEnd \<Rightarrow>
               (let ap3 = ap2\<lparr>End := parsedEnd\<rparr>;
                    ap4 = ap3\<lparr>Location := orEmpty (location event)\<rparr>;
                    ap5 = ap4\<lparr>Body := orEmpty (description event)\<rparr>;
                    ap6 = addAttendees (attendees event) ap5
                in case team event of
                     None \<Rightarrow> Inr ap6
                   | Some t \<Rightarrow> Inr (addAttendees (members t) ap6))))"

definition eventResult :: "string \<Rightarrow> NewCalendarEventType" where
  "eventResult u =
     \<lparr>uid = u, id' = u, password' = [], type' = [], url' = [], additionalInfo = []\<rparr>"

text \<open>
  \<open>Save\<close> resolves with the identifier the server assigned, which the library stores in the
  appointment before the \<open>then\<close> callback reads it.
\<close>

definition createEvent ::
  "'w Ews \<Rightarrow> CalendarEvent \<Rightarrow> ExchangeCalendarService \<Rightarrow> 'w
   \<Rightarrow> (exn + NewCalendarEventType) \<times> ExchangeCalendarService \<times> 'w" where
  "createEvent lib event a w =
     (case getExchangeService lib a of
        (Inl e, a1) \<Rightarrow> (Inl e, a1, w)
      | (Inr service, a1) \<Rightarrow>
          (case fillAppointment lib event newAppointment of
             Inl e \<Rightarrow> (Inl e, a1, w)
           | Inr appointment \<Rightarrow>
               (case Save lib service appointment w of
                  (Inr u, w1) \<Rightarrow> (Inr (eventResult u), a1, w1)
                | (Inl reason, w1) \<Rightarrow> (Inl reason, a1, w1))))"

text \<open>Reading \<open>Id.UniqueId\<close> of an appointment without identifier throws in the callback.\<close>

definition updateEvent ::
  "'w Ews \<Rightarrow> string \<Rightarrow> CalendarEvent \<Rightarrow> ExchangeCalendarService \<Rightarrow> 'w
   \<Rightarrow> (exn + NewCalendarEventType) \<times> ExchangeCalendarService \<times> 'w" where
  "updateEvent lib u event a w =
     (case getExchangeService lib a of
        (Inl e, a1) \<Rightarrow> (Inl e, a1, w)
      | (Inr service, a1) \<Rightarrow>
          (case Appointment_Bind lib service u w of
             (Inl e, w1) \<Rightarrow> (Inl e, a1, w1)
           | (Inr bound, w1) \<Rightarrow>
               (case fillAppointment lib event bound of
                  Inl e \<Rightarrow> (Inl e, a1, w1)
                | Inr appointment \<Rightarrow>
                    (case Update lib service appointment w1 of
                       (Some reason, w2) \<Rightarrow> (Inl reason, a1, w2)
                     | (None, w2) \<Rightarrow>
                         (case ItemId appointment of
                            None \<Rightarrow> (Inl (Error ''Cannot read properties of null (reading 'UniqueId')''), a1, w2)
                          | Some i \<Rightarrow> (Inr (eventResult i), a1, w2))))))"

definition deleteEvent ::
  "'w Ews \<Rightarrow> string \<Rightarrow> ExchangeCalendarService \<Rightarrow> 'w
   \<Rightarrow> (exn + unit) \<times> ExchangeCalendarService \<times> 'w" where
  "deleteEvent lib u a w =
     (case getExchangeService lib a of
        (Inl e, a1) \<Rightarrow> (Inl e, a1, w)
      | (Inr service, a1) \<Rightarrow>
          (case Appointment_Bind lib service u w of
             (Inl e, w1) \<Rightarrow> (Inl e, a1, w1)
           | (Inr appointment, w1) \<Rightarrow>
               (case Delete lib service appointment w1 of
                  (Some reason, w2) \<Rightarrow> (Inl reason, a1, w2)
                | (None, w2) \<Rightarrow> (Inr (), a1, w2))))"

subsection \<open>Calendars and availability\<close>

definition toCalendar :: "ExchangeCalendarService \<Rightarrow> Folder \<Rightarrow> IntegrationCalendar" where
  "toCalendar a folder =
     \<lparr>externalId = FolderId folder,
      name = (case DisplayName folder of None \<Rightarrow> [] | Some n \<Rightarrow> n),
      primary = (ChildFolderCount folder > 0),
      integration = integrationName a\<rparr>"

definition listCalendars ::
  "'w Ews \<Rightarrow> ExchangeCalendarService \<Rightarrow> 'w
   \<Rightarrow> (exn + IntegrationCalendar list) \<times> ExchangeCalendarService \<times> 'w" where
  "listCalendars lib a w =
     (case getExchangeService lib a of
        (Inl e, a1) \<Rightarrow> (Inl e, a1, w)
      | (Inr service, a1) \<Rightarrow>
          (case Folder_Bind_DeletedItems lib service w of
             (Inl e, w1) \<Rightarrow> (Inl e, a1, w1)
           | (Inr deletedItemsFolder, w1) \<Rightarrow>
               (case FindFolders lib service w1 of
                  (Inl reason, w2) \<Rightarrow> (Inl reason, a1, w2)
                | (Inr folders, w2) \<Rightarrow>
                    (Inr (map (toCalendar a1)
                            (filter (\<lambda>folder. ParentFolderId folder \<noteq> FolderId deletedItemsFolder)
                               folders)),
                     a1, w2))))"

definition toBusyDate :: "Appointment \<Rightarrow> EventBusyDate" where
  "toBusyDate appointment = \<lparr>start = Start appointment, end' = End appointment\<rparr>"

text \<open>
  The callback mapped over the selected calendars: the two dates are parsed, which throws for
  a string that is not a date, then one query, then filter and map.
\<close>

definition queryCalendar ::
  "'w Ews \<Rightarrow> string \<Rightarrow> string \<Rightarrow> IntegrationCalendar \<Rightarrow> ExchangeCalendarService \<Rightarrow> 'w
   \<Rightarrow> (exn + EventBusyDate list) \<times> ExchangeCalendarService \<times> 'w" where
  "queryCalendar lib dateFrom dateTo calendar a w =
     (case getExchangeService lib a of
        (Inl e, a1) \<Rightarrow> (Inl e, a1, w)
      | (Inr service, a1) \<Rightarrow>
          (case DateTime_Parse lib dateFrom of
             Inl e \<Rightarrow> (Inl e, a1, w)
           | Inr parsedFrom \<Rightarrow>
               (case DateTime_Parse lib dateTo of
                  Inl e \<Rightarrow> (Inl e, a1, w)
                | Inr parsedTo \<Rightarrow>
                    (case FindAppointments lib service (externalId calendar)
                            parsedFrom parsedTo w of
                       (Inl reason, w1) \<Rightarrow> (Inl reason, a1, w1)
                     | (Inr items, w1) \<Rightarrow>
                         (Inr (map toBusyDate
                                 (filter (\<lambda>appointment. FreeBusyStatus appointment \<noteq> Free)
                                    items)),
                          a1, w1)))))"

text \<open>
  The queries are started in the order of the list and none is cancelled; the model runs them
  one after the other.
\<close>

fun queryCalendars ::
  "'w Ews \<Rightarrow> string \<Rightarrow> string \<Rightarrow> IntegrationCalendar list \<Rightarrow> ExchangeCalendarService \<Rightarrow> 'w
   \<Rightarrow> (exn + EventBusyDate list) list \<times> ExchangeCalendarService \<times> 'w" where
  "queryCalendars lib dateFrom dateTo [] a w = ([], a, w)"
| "queryCalendars lib dateFrom dateTo (calendar # rest) a w =
     (case queryCalendar lib dateFrom dateTo calendar a w of
        (r, a1, w1) \<Rightarrow>
          (case queryCalendars lib dateFrom dateTo rest a1 w1 of
             (rs, a2, w2) \<Rightarrow> (r # rs, a2, w2)))"

text \<open>
  \<open>Promise.all\<close>: the values in order when every promise is fulfilled; otherwise the
  rejection that comes first in time, which is number \<open>k\<close> among the rejections.
\<close>

fun rejections :: "(exn + 'a) list \<Rightarrow> exn list" where
  "rejections [] = []"
| "rejections (Inl e # rest) = e # rejections rest"
| "rejections (Inr x # rest) = rejections rest"

fun fulfilments :: "(exn + 'a) list \<Rightarrow> 'a list" where
  "fulfilments [] = []"
| "fulfilments (Inl e # rest) = fulfilments rest"
| "fulfilments (Inr x # rest) = x # fulfilments rest"

definition Promise_all :: "nat \<Rightarrow> (exn + 'a) list \<Rightarrow> exn + 'a list" where
  "Promise_all k promises =
     (case rejections promises of
        [] \<Rightarrow> Inr (fulfilments promises)
      | e # es \<Rightarrow> Inl ((e # es) ! (k mod length (e # es))))"

definition getAvailability ::
  "'w Ews \<Rightarrow> string \<Rightarrow> string \<Rightarrow> IntegrationCalendar list \<Rightarrow> ExchangeCalendarService \<Rightarrow> 'w
   \<Rightarrow> (exn + EventBusyDate list) \<times> ExchangeCalendarService \<times> 'w" where
  "getAvailability lib dateFrom dateTo selectedCalendars a w =
     (case listCalendars lib a w of
        (Inl e, a1, w1) \<Rightarrow> (Inl e, a1, w1)
      | (Inr calendars, a1, w1) \<Rightarrow>
          (case queryCalendars lib dateFrom dateTo
                  (filter (\<lambda>lcal. list_ex (\<lambda>rcal. externalId lcal = externalId rcal)
                                    selectedCalendars) calendars) a1 w1 of
             (promises, a2, w2) \<Rightarrow>
               (case Promise_all (firstToReject lib w2) promises of
                  Inl e \<Rightarrow> (Inl e, a2, w2)
                | Inr x \<Rightarrow> (Inr (concat x), a2, w2))))"

subsection \<open>Sequences of public operations\<close>

datatype operation =
    CreateEvent CalendarEvent
  | UpdateEvent string CalendarEvent
  | DeleteEvent string
  | ListCalendars
  | GetAvailability string string "IntegrationCalendar list"

text \<open>One operation on the adapter and the world; its result is dropped here.\<close>

fun runOperation ::
  "'w Ews \<Rightarrow> operation \<Rightarrow> ExchangeCalendarService \<times> 'w \<Rightarrow> ExchangeCalendarService \<times> 'w" where
  "runOperation lib (CreateEvent event) (a, w) = snd (createEvent lib event a w)"
| "runOperation lib (UpdateEvent u event) (a, w) = snd (updateEvent lib u event a w)"
| "runOperation lib (DeleteEvent u) (a, w) = snd (deleteEvent lib u a w)"
| "runOperation lib ListCalendars (a, w) = snd (listCalendars lib a w)"
| "runOperation lib (GetAvailability dateFrom dateTo selected) (a, w) =
     snd (getAvailability lib dateFrom dateTo selected a w)"

fun runOperations ::
  "'w Ews \<Rightarrow> operation list \<Rightarrow> ExchangeCalendarService \<times> 'w \<Rightarrow> ExchangeCalendarService \<times> 'w" where
  "runOperations lib [] s = s"
| "runOperations lib (x # xs) s = runOperations lib xs (runOperation lib x s)"

section \<open>Specification-side definitions\<close>

subsection \<open>The five rules of the validator, as the specification words them\<close>

text \<open>A string contains another one when it is some prefix, the other string, some suffix.\<close>

definition containsStr :: "string \<Rightarrow> string \<Rightarrow> bool" where
  "containsStr s p = (\<exists>a b. s = a @ p @ b)"

text \<open>
  Two characters are the same without regard to case when they are equal or one is a capital
  letter and the other the corresponding small letter. A string contains a pattern without
  regard to case when one of its segments matches the pattern character by character.
\<close>

definition sameIgnoringCase :: "char \<Rightarrow> char \<Rightarrow> bool" where
  "sameIgnoringCase x y =
     (x = y
      \<or> (x, y) \<in> set (zip ''ABCDEFGHIJKLMNOPQRSTUVWXYZ'' ''abcdefghijklmnopqrstuvwxyz'')
      \<or> (y, x) \<in> set (zip ''ABCDEFGHIJKLMNOPQRSTUVWXYZ'' ''abcdefghijklmnopqrstuvwxyz''))"

definition containsIgnoringCase :: "string \<Rightarrow> string \<Rightarrow> bool" where
  "containsIgnoringCase s p = (\<exists>a m b. s = a @ m @ b \<and> list_all2 sameIgnoringCase m p)"

text \<open>The characters of the three patterns: below 128 and no capital letter.\<close>

definition plainChar :: "char \<Rightarrow> bool" where
  "plainChar p =
     ((of_char p :: nat) < 128 \<and> \<not> (65 \<le> (of_char p :: nat) \<and> (of_char p :: nat) \<le> 90))"

text \<open>
  url: required; must parse as an absolute URL; scheme must be https; the path must contain
  one of three substrings, compared without regard to case.
\<close>

definition rule_url :: "(string \<Rightarrow> URL option) \<Rightarrow> ExchangeConfig \<Rightarrow> bool" where
  "rule_url newURL c =
     (case url c of
        None \<Rightarrow> False
      | Some u \<Rightarrow> u \<noteq> [] \<and>
          (case newURL u of
             None \<Rightarrow> False
           | Some urlObj \<Rightarrow> protocol urlObj = ''https:'' \<and>
               (containsIgnoringCase (pathname urlObj) ''/ews/''
                \<or> containsIgnoringCase (pathname urlObj) ''/exchange.asmx''
                \<or> containsIgnoringCase (pathname urlObj) ''/microsoft-server-activesync'')))"

text \<open>
  username: required; must have the shape of an e-mail address, \<open>local@domain.tld\<close>: three
  non-empty parts without white space and without at sign, the first two separated by an at
  sign and the last two by a dot. The white space characters below 256 are tab, line feed,
  vertical tab, form feed, carriage return, space and no-break space.
\<close>

definition whiteSpace :: "char list" where
  "whiteSpace = [CHR 0x09, CHR 0x0A, CHR 0x0B, CHR 0x0C, CHR 0x0D, CHR 0x20, CHR 0xA0]"

definition emailShape :: "string \<Rightarrow> bool" where
  "emailShape s =
     (\<exists>a b c. s = a @ ''@'' @ b @ ''.'' @ c \<and> a \<noteq> [] \<and> b \<noteq> [] \<and> c \<noteq> []
        \<and> list_all (\<lambda>ch. ch \<notin> set whiteSpace \<and> ch \<noteq> CHR ''@'') (a @ b @ c))"

definition rule_username :: "ExchangeConfig \<Rightarrow> bool" where
  "rule_username c = (case username c of None \<Rightarrow> False | Some n \<Rightarrow> n \<noteq> [] \<and> emailShape n)"

text \<open>password: required; zero length is an error.\<close>

definition rule_password :: "ExchangeConfig \<Rightarrow> bool" where
  "rule_password c = (case password c of None \<Rightarrow> False | Some p \<Rightarrow> p \<noteq> [])"

text \<open>authenticationMethod and exchangeVersion: if present, one of the declared values.\<close>

definition rule_authenticationMethod :: "ExchangeConfig \<Rightarrow> bool" where
  "rule_authenticationMethod c =
     (case authenticationMethod c of None \<Rightarrow> True | Some m \<Rightarrow> m = STANDARD \<or> m = NTLM)"

definition rule_exchangeVersion :: "ExchangeConfig \<Rightarrow> bool" where
  "rule_exchangeVersion c =
     (case exchangeVersion c of None \<Rightarrow> True | Some v \<Rightarrow> v \<in> set ExchangeVersion_values)"

definition violatedRules :: "(string \<Rightarrow> URL option) \<Rightarrow> ExchangeConfig \<Rightarrow> nat" where
  "violatedRules newURL c =
     length (filter Not [rule_url newURL c, rule_username c, rule_password c,
                         rule_authenticationMethod c, rule_exchangeVersion c])"

text \<open>What each rule adds to the list of errors.\<close>

definition urlErrors :: "(string \<Rightarrow> URL option) \<Rightarrow> ExchangeConfig \<Rightarrow> string list" where
  "urlErrors newURL c =
     (if rule_url newURL c then []
      else if url c = None \<or> url c = Some [] then [''Exchange URL is required'']
      else [''URL must be a valid Exchange Web Services (EWS) endpoint (e.g., https://mail.company.com/ews/Exchange.asmx)''])"

definition usernameErrors :: "ExchangeConfig \<Rightarrow> string list" where
  "usernameErrors c =
     (if rule_username c then []
      else if username c = None \<or> username c = Some [] then [''Username is required'']
      else [''Username must be a valid email address''])"

definition passwordErrors :: "ExchangeConfig \<Rightarrow> string list" where
  "passwordErrors c = (if rule_password c then [] else [''Password is required''])"

definition authErrors :: "ExchangeConfig \<Rightarrow> string list" where
  "authErrors c = (if rule_authenticationMethod c then [] else [''Invalid authentication method''])"

definition versionErrors :: "ExchangeConfig \<Rightarrow> string list" where
  "versionErrors c = (if rule_exchangeVersion c then [] else [''Invalid Exchange version''])"

subsection \<open>The raw results of an availability query\<close>

text \<open>
  The answers of the server to one appointment query per folder, asked in the order of the
  list, and the world after the last one.
\<close>

fun fetchAll ::
  "'w Ews \<Rightarrow> ExchangeService \<Rightarrow> DateTime \<Rightarrow> DateTime \<Rightarrow> string list \<Rightarrow> 'w
   \<Rightarrow> (exn + Appointment list) list \<times> 'w" where
  "fetchAll lib service dateFrom dateTo [] w = ([], w)"
| "fetchAll lib service dateFrom dateTo (folder # rest) w =
     (case FindAppointments lib service folder dateFrom dateTo w of
        (r, w1) \<Rightarrow>
          (case fetchAll lib service dateFrom dateTo rest w1 of
             (rs, w2) \<Rightarrow> (r # rs, w2)))"

text \<open>The start and end of every appointment of a result set that is not free.\<close>

definition busyIntervals :: "Appointment list \<Rightarrow> EventBusyDate list" where
  "busyIntervals items =
     map (\<lambda>ap. \<lparr>start = Start ap, end' = End ap\<rparr>)
       (filter (\<lambda>ap. FreeBusyStatus ap \<noteq> Free) items)"

subsection \<open>A server that honours deletion\<close>

text \<open>
  What the adapter relies on for a deleted item: once an item bound under an identifier has
  been deleted, the server reports no such item for that identifier, with an error of the
  kind \<open>isNotFound\<close>.
\<close>

definition forgetsDeleted :: "'w Ews \<Rightarrow> (exn \<Rightarrow> bool) \<Rightarrow> bool" where
  "forgetsDeleted lib isNotFound =
     (\<forall>service u w ap w1 w2.
        Appointment_Bind lib service u w = (Inr ap, w1) \<and> Delete lib service ap w1 = (None, w2)
        \<longrightarrow> (\<exists>e w3. Appointment_Bind lib service u w2 = (Inl e, w3) \<and> isNotFound e))"

section \<open>An in-memory server and example data\<close>

text \<open>
  A server that keeps its items in a list, numbers the items it stores, moves a deleted item
  out of the reach of its old identifier, and counts every request it receives. Its date
  parser knows the ISO dates of the examples and rejects every other string.
\<close>

definition exampleDateParse :: "string \<Rightarrow> exn + DateTime" where
  "exampleDateParse s =
     (if s = ''2024-01-01T00:00:00Z'' then Inr 1704067200000
      else if s = ''2024-01-01T10:00:00Z'' then Inr 1704103200000
      else if s = ''2024-01-01T11:00:00Z'' then Inr 1704106800000
      else if s = ''2024-01-02T00:00:00Z'' then Inr 1704153600000
      else Inl (Error ''Invalid date''))"

record MemServer =
  storedItems :: "(string \<times> Appointment) list"
  mailFolders :: "Folder list"
  calendarItems :: "(string \<times> Appointment list) list"
  saved :: nat
  requests :: nat

definition memEws :: "MemServer Ews" where
  "memEws =
     \<lparr>newExchangeService = (\<lambda>v. None),
      newWebCredentials = (\<lambda>u p. None),
      newUri = (\<lambda>u. None),
      ntlmXhr = (\<lambda>u p. None),
      DateTime_Parse = exampleDateParse,
      Appointment_Bind = (\<lambda>service u w.
        (case map_of (storedItems w) u of
           None \<Rightarrow> Inl (Error ''The specified object was not found in the store.'')
         | Some ap \<Rightarrow> Inr (ap\<lparr>ItemId := Some u\<rparr>),
         w\<lparr>requests := Suc (requests w)\<rparr>)),
      Save = (\<lambda>service ap w.
        (Inr (replicate (Suc (saved w)) CHR ''i''),
         w\<lparr>storedItems := (replicate (Suc (saved w)) CHR ''i'',
                      ap\<lparr>ItemId := Some (replicate (Suc (saved w)) CHR ''i'')\<rparr>) # storedItems w,
           saved := Suc (saved w), requests := Suc (requests w)\<rparr>)),
      Update = (\<lambda>service ap w.
        (None,
         w\<lparr>storedItems := (case ItemId ap of None \<Rightarrow> storedItems w | Some u \<Rightarrow> (u, ap) # storedItems w),
           requests := Suc (requests w)\<rparr>)),
      Delete = (\<lambda>service ap w.
        (None,
         w\<lparr>storedItems := filter (\<lambda>kv. Some (fst kv) \<noteq> ItemId ap) (storedItems w),
           requests := Suc (requests w)\<rparr>)),
      Folder_Bind_DeletedItems = (\<lambda>service w.
        (Inr \<lparr>FolderId = ''deleteditems'', ParentFolderId = ''root'',
              DisplayName = Some ''Deleted Items'', ChildFolderCount = 0\<rparr>,
         w\<lparr>requests := Suc (requests w)\<rparr>)),
      FindFolders = (\<lambda>service w. (Inr (mailFolders w), w\<lparr>requests := Suc (requests w)\<rparr>)),
      FindAppointments = (\<lambda>service folder dateFrom dateTo w.
        (case map_of (calendarItems w) folder of
           None \<Rightarrow> Inl (Error ''The specified folder could not be found in the store.'')
         | Some aps \<Rightarrow> Inr (filter (\<lambda>ap. dateFrom \<le> End ap \<and> Start ap \<le> dateTo) aps),
         w\<lparr>requests := Suc (requests w)\<rparr>)),
      firstToReject = (\<lambda>w. 0)\<rparr>"

definition exampleServer :: MemServer where
  "exampleServer =
     \<lparr>storedItems = [],
      mailFolders =
        [\<lparr>FolderId = ''cal1'', ParentFolderId = ''root'', DisplayName = Some ''Calendar'',
          ChildFolderCount = 1\<rparr>,
         \<lparr>FolderId = ''cal2'', ParentFolderId = ''deleteditems'', DisplayName = Some ''Old'',
          ChildFolderCount = 0\<rparr>,
         \<lparr>FolderId = ''cal3'', ParentFolderId = ''cal1'', DisplayName = None,
          ChildFolderCount = 0\<rparr>],
      calendarItems =
        [(''cal1'',
          [\<lparr>ItemId = Some ''m1'', Subject = ''Review'', Start = 1704103200000,
            End = 1704106800000, Location = [],
            Body = [], RequiredAttendees = [], FreeBusyStatus = Busy\<rparr>,
           \<lparr>ItemId = Some ''m2'', Subject = ''Lunch'', Start = 1704110400000,
            End = 1704114000000, Location = [],
            Body = [], RequiredAttendees = [], FreeBusyStatus = Free\<rparr>]),
         (''cal2'', []),
         (''cal3'',
          [\<lparr>ItemId = Some ''m3'', Subject = ''Call'', Start = 1704117600000,
            End = 1704121200000, Location = [],
            Body = [], RequiredAttendees = [], FreeBusyStatus = Tentative\<rparr>])],
      saved = 0, requests = 0\<rparr>"

definition examplePayload :: json where
  "examplePayload =
     JObj [(''url'', JStr ''https://mail.company.com/ews/Exchange.asmx''),
           (''username'', JStr ''user@company.com''),
           (''password'', JStr ''secret''),
           (''authenticationMethod'', JNum 7),
           (''exchangeVersion'', JNum 99)]"

definition exampleAdapter :: ExchangeCalendarService where
  "exampleAdapter =
     \<lparr>integrationName = ''exchange_calendar'', payload = examplePayload,
      exchangeService = None, servicesConstructed = 0\<rparr>"

definition exampleHandle :: ExchangeService where
  "exampleHandle =
     \<lparr>serviceId = 0, RequestedServerVersion = 99,
      Credentials = (JStr ''user@company.com'', JStr ''secret''),
      Url = JStr ''https://mail.company.com/ews/Exchange.asmx'', XHRApi = None\<rparr>"

definition connectedAdapter :: ExchangeCalendarService where
  "connectedAdapter =
     \<lparr>integrationName = ''exchange_calendar'', payload = examplePayload,
      exchangeService = Some exampleHandle, servicesConstructed = 1\<rparr>"

definition ntlmAdapter :: ExchangeCalendarService where
  "ntlmAdapter =
     \<lparr>integrationName = ''exchange_calendar'',
      payload =
        JObj [(''url'', JStr ''https://mail.company.com/ews/Exchange.asmx''),
              (''username'', JStr ''user@company.com''),
              (''password'', JStr ''secret''),
              (''authenticationMethod'', JNum 1),
              (''exchangeVersion'', JStr ''Exchange2016'')],
      exchangeService = None, servicesConstructed = 0\<rparr>"

definition ntlmHandle :: ExchangeService where
  "ntlmHandle =
     \<lparr>serviceId = 0, RequestedServerVersion = 5,
      Credentials = (JStr ''user@company.com'', JStr ''secret''),
      Url = JStr ''https://mail.company.com/ews/Exchange.asmx'',
      XHRApi = Some (JStr ''user@company.com'', JStr ''secret'')\<rparr>"

definition incompleteAdapter :: ExchangeCalendarService where
  "incompleteAdapter =
     \<lparr>integrationName = ''exchange_calendar'',
      payload = JObj [(''url'', JStr []), (''username'', JStr ''user@company.com'')],
      exchangeService = None, servicesConstructed = 0\<rparr>"

definition exampleEvent :: CalendarEvent where
  "exampleEvent =
     \<lparr>title = ''Sync'', startTime = ''2024-01-01T10:00:00Z'', endTime = ''2024-01-01T11:00:00Z'',
      location = None, description = Some ''Weekly'',
      attendees = [\<lparr>email = ''a@x.org''\<rparr>, \<lparr>email = ''b@x.org''\<rparr>],
      team = Some \<lparr>members = [\<lparr>email = ''a@x.org''\<rparr>]\<rparr>\<rparr>"

text \<open>
  The platform's parser on the two URLs of the examples; the examples apply it to no other
  string.
\<close>

definition exampleNewURL :: "string \<Rightarrow> URL option" where
  "exampleNewURL s =
     (if s = ''https://mail.company.com/ews/Exchange.asmx''
      then Some \<lparr>protocol = ''https:'', pathname = ''/ews/Exchange.asmx''\<rparr>
      else if s = ''http://x/ews/a''
      then Some \<lparr>protocol = ''http:'', pathname = ''/ews/a''\<rparr>
      else None)"

definition exampleCalendars :: "IntegrationCalendar list" where
  "exampleCalendars =
     [\<lparr>externalId = ''cal1'', name = ''Calendar'', primary = True,
       integration = ''exchange_calendar''\<rparr>,
      \<lparr>externalId = ''cal3'', name = [], primary = False,
       integration = ''exchange_calendar''\<rparr>]"

definition exampleSelected :: "IntegrationCalendar list" where
  "exampleSelected =
     [\<lparr>externalId = ''cal3'', name = [], primary = False, integration = ''exchange_calendar''\<rparr>,
      \<lparr>externalId = ''cal1'', name = ''Calendar'', primary = True,
       integration = ''exchange_calendar''\<rparr>,
      \<lparr>externalId = ''cal9'', name = ''Gone'', primary = False,
       integration = ''exchange_calendar''\<rparr>]"

definition exampleResults :: "Appointment list list" where
  "exampleResults =
     [ [\<lparr>ItemId = Some ''m1'', Subject = ''Review'', Start = 1704103200000,
            End = 1704106800000, Location = [],
        Body = [], RequiredAttendees = [], FreeBusyStatus = Busy\<rparr>,
       \<lparr>ItemId = Some ''m2'', Subject = ''Lunch'', Start = 1704110400000,
            End = 1704114000000, Location = [],
        Body = [], RequiredAttendees = [], FreeBusyStatus = Free\<rparr>],
      [\<lparr>ItemId = Some ''m3'', Subject = ''Call'', Start = 1704117600000,
            End = 1704121200000, Location = [],
        Body = [], RequiredAttendees = [], FreeBusyStatus = Tentative\<rparr>] ]"

definition exampleAppointment :: Appointment where
  "exampleAppointment =
     \<lparr>ItemId = None, Subject = ''Sync'', Start = 1704103200000, End = 1704106800000,
      Location = [],
      Body = ''Weekly'', RequiredAttendees = [''a@x.org'', ''b@x.org'', ''a@x.org''],
      FreeBusyStatus = Busy\<rparr>"

definition createdServer :: MemServer where
  "createdServer =
     exampleServer\<lparr>storedItems := [(''i'', exampleAppointment\<lparr>ItemId := Some ''i''\<rparr>)],
                   saved := 1, requests := 1\<rparr>"

definition deletedServer :: MemServer where
  "deletedServer = createdServer\<lparr>storedItems := [], requests := 3\<rparr>"

definition exampleDecrypt :: "string \<Rightarrow> string \<Rightarrow> exn + string" where
  "exampleDecrypt ciphertext secret =
     (if secret = [] then Inl (Error ''Invalid key length'') else Inr ciphertext)"

definition exampleParse :: "string \<Rightarrow> exn + json" where
  "exampleParse t =
     (if t = ''null'' then Inr JNull
      else if t = ''{}'' then Inr (JObj [])
      else Inl (Error ''Unexpected token''))"

definition emptyConfig :: ExchangeConfig where
  "emptyConfig =
     \<lparr>url = Some [], username = Some [], password = Some [],
      authenticationMethod = None, exchangeVersion = None, useCompression = None\<rparr>"

definition oldServerConfig :: ExchangeConfig where
  "oldServerConfig =
     \<lparr>url = Some ''https://mail.company.com/ews/Exchange.asmx'',
      username = Some ''user@company.com'', password = Some ''secret'',
      authenticationMethod = Some STANDARD, exchangeVersion = Some Exchange2007_SP1,
      useCompression = Some False\<rparr>"

section \<open>Properties of the validator\<close>

text \<open>The string test of the code finds exactly the substrings.\<close>

lemma startsWith_iff: "startsWith s p \<longleftrightarrow> (\<exists>b. s = p @ b)"
  by (induction s p rule: startsWith.induct) auto

lemma includesStr_containsStr: "includesStr s p \<longleftrightarrow> containsStr s p"
  unfolding containsStr_def
proof (induction s)
  case Nil
  then show ?case by auto
next
  case (Cons c cs)
  have "(\<exists>a b. c # cs = a @ p @ b) \<longleftrightarrow> (\<exists>b. c # cs = p @ b) \<or> (\<exists>a b. cs = a @ p @ b)"
  proof
    assume "\<exists>a b. c # cs = a @ p @ b"
    then obtain a b where ab: "c # cs = a @ p @ b" by blast
    show "(\<exists>b. c # cs = p @ b) \<or> (\<exists>a b. cs = a @ p @ b)"
    proof (cases a)
      case Nil
      then show ?thesis using ab by auto
    next
      case (Cons x xs)
      then have "cs = xs @ p @ b" using ab by simp
      then show ?thesis by blast
    qed
  next
    assume "(\<exists>b. c # cs = p @ b) \<or> (\<exists>a b. cs = a @ p @ b)"
    then show "\<exists>a b. c # cs = a @ p @ b"
    proof
      assume "\<exists>b. c # cs = p @ b"
      then obtain b where "c # cs = [] @ p @ b" by auto
      then show ?thesis by blast
    next
      assume "\<exists>a b. cs = a @ p @ b"
      then obtain a b where "c # cs = (c # a) @ p @ b" by auto
      then show ?thesis by blast
    qed
  qed
  then show ?case using Cons.IH by (simp add: startsWith_iff)
qed

text \<open>
  Lowering the case of a string and looking for a pattern of plain characters is looking for
  the pattern without regard to case.
\<close>

lemma char_eq_char_of: "(c = char_of (n::nat)) \<longleftrightarrow> ((of_char c :: nat) = take_bit 8 n)"
  using char_of_eq_iff[of n c] by auto

lemma zip_lower:
  "zip ''ABCDEFGHIJKLMNOPQRSTUVWXYZ'' ''abcdefghijklmnopqrstuvwxyz''
     = map (\<lambda>c. (c, lowerChar c)) ''ABCDEFGHIJKLMNOPQRSTUVWXYZ''"
  by (simp add: lowerChar_def char_eq_char_of)

lemma upper_iff:
  "x \<in> set ''ABCDEFGHIJKLMNOPQRSTUVWXYZ'' \<longleftrightarrow> 65 \<le> (of_char x :: nat) \<and> (of_char x :: nat) \<le> 90"
proof
  assume "x \<in> set ''ABCDEFGHIJKLMNOPQRSTUVWXYZ''"
  then show "65 \<le> (of_char x :: nat) \<and> (of_char x :: nat) \<le> 90" by auto
next
  assume a: "65 \<le> (of_char x :: nat) \<and> (of_char x :: nat) \<le> 90"
  have "(of_char x :: nat) \<in> {65..<91}" using a by (simp only: atLeastLessThan_iff) arith
  then have "(of_char x :: nat) \<in> set [65..<91]" by (simp only: set_upt)
  then have "char_of (of_char x :: nat) \<in> set (map char_of [65..<91::nat])"
    by (simp only: set_map) (rule imageI)
  then have "x \<in> set (map char_of [65..<91::nat])" by (simp only: char_of_char)
  moreover have "map char_of [65..<91::nat] = ''ABCDEFGHIJKLMNOPQRSTUVWXYZ''"
    by (simp add: upt_rec_numeral char_eq_char_of eq_commute[of "char_of _"])
  ultimately show "x \<in> set ''ABCDEFGHIJKLMNOPQRSTUVWXYZ''" by simp
qed

lemma in_graph: "(x, y) \<in> set (map (\<lambda>c. (c, f c)) xs) \<longleftrightarrow> x \<in> set xs \<and> y = f x"
  by auto

lemma pair_iff:
  "(x, y) \<in> set (zip ''ABCDEFGHIJKLMNOPQRSTUVWXYZ'' ''abcdefghijklmnopqrstuvwxyz'')
     \<longleftrightarrow> x \<in> set ''ABCDEFGHIJKLMNOPQRSTUVWXYZ'' \<and> y = lowerChar x"
  unfolding zip_lower by (rule in_graph)

lemma lowerChar_plain:
  assumes "plainChar p"
  shows "lowerChar x = p \<longleftrightarrow> sameIgnoringCase x p"
proof -
  have pu: "p \<notin> set ''ABCDEFGHIJKLMNOPQRSTUVWXYZ''"
    using assms unfolding upper_iff plainChar_def by simp
  have s: "sameIgnoringCase x p \<longleftrightarrow> x = p \<or> (65 \<le> (of_char x :: nat) \<and> (of_char x :: nat) \<le> 90) \<and> p = lowerChar x"
    unfolding sameIgnoringCase_def pair_iff using pu upper_iff by blast
  show ?thesis
  proof (cases "65 \<le> (of_char x :: nat) \<and> (of_char x :: nat) \<le> 90")
    case True
    then have "x \<noteq> p" using assms by (auto simp: plainChar_def)
    then show ?thesis using s True by auto
  next
    case False
    show ?thesis
    proof (cases "192 \<le> (of_char x :: nat) \<and> (of_char x :: nat) \<le> 222 \<and> (of_char x :: nat) \<noteq> 215")
      case True
      then have "(of_char (lowerChar x) :: nat) = of_char x + 32"
        by (simp add: lowerChar_def Let_def)
      then have "lowerChar x \<noteq> p" "x \<noteq> p" using True assms by (auto simp: plainChar_def)
      then show ?thesis using s False by auto
    next
      case F2: False
      then have "lowerChar x = x" using False by (auto simp: lowerChar_def Let_def)
      then show ?thesis using s False by auto
    qed
  qed
qed

lemma map_eq_list_all2: "map f m = p \<longleftrightarrow> list_all2 (\<lambda>x y. f x = y) m p"
  by (induction m arbitrary: p) (auto simp: list_all2_Cons1)

lemma list_all2_plain:
  assumes "list_all plainChar p"
  shows "list_all2 (\<lambda>x y. lowerChar x = y) m p \<longleftrightarrow> list_all2 sameIgnoringCase m p"
  using assms
proof (induction m arbitrary: p)
  case Nil
  then show ?case by simp
next
  case (Cons x xs)
  then show ?case by (cases p) (auto simp: lowerChar_plain)
qed

lemma includes_lower_ignoring_case:
  assumes "list_all plainChar p"
  shows "includesStr (toLowerCase s) p \<longleftrightarrow> containsIgnoringCase s p"
proof -
  have "includesStr (toLowerCase s) p \<longleftrightarrow> (\<exists>a' b'. map lowerChar s = a' @ p @ b')"
    by (simp add: includesStr_containsStr containsStr_def toLowerCase_def)
  also have "\<dots> \<longleftrightarrow> (\<exists>a m b. s = a @ m @ b \<and> map lowerChar m = p)"
  proof
    assume "\<exists>a' b'. map lowerChar s = a' @ p @ b'"
    then obtain a' b' where "map lowerChar s = a' @ p @ b'" by blast
    then obtain a r where sr: "s = a @ r" and "p @ b' = map lowerChar r"
      unfolding map_eq_append_conv by blast
    then obtain m b where "r = m @ b" and "map lowerChar m = p"
      unfolding append_eq_map_conv by blast
    then show "\<exists>a m b. s = a @ m @ b \<and> map lowerChar m = p" using sr by blast
  next
    assume "\<exists>a m b. s = a @ m @ b \<and> map lowerChar m = p"
    then obtain a m b where "s = a @ m @ b" and "map lowerChar m = p" by blast
    then have "map lowerChar s = map lowerChar a @ p @ map lowerChar b" by simp
    then show "\<exists>a' b'. map lowerChar s = a' @ p @ b'" by blast
  qed
  also have "\<dots> \<longleftrightarrow> containsIgnoringCase s p"
    unfolding containsIgnoringCase_def map_eq_list_all2 list_all2_plain[OF assms] ..
  finally show ?thesis .
qed

lemma plain_patterns:
  "list_all plainChar ''/ews/''" "list_all plainChar ''/exchange.asmx''"
  "list_all plainChar ''/microsoft-server-activesync''"
  by (simp_all add: plainChar_def)

text \<open>The code's character class is the set of white space characters.\<close>

lemma of_char_is: "(of_char d :: nat) = n \<Longrightarrow> ((of_char c :: nat) = n) = (c = d)"
  by auto

lemma isSpace_whiteSpace: "isSpace c \<longleftrightarrow> c \<in> set whiteSpace"
proof -
  have "((of_char c :: nat) = 9) = (c = CHR 0x09)" by (rule of_char_is) simp
  moreover have "((of_char c :: nat) = 10) = (c = CHR 0x0A)" by (rule of_char_is) simp
  moreover have "((of_char c :: nat) = 11) = (c = CHR 0x0B)" by (rule of_char_is) simp
  moreover have "((of_char c :: nat) = 12) = (c = CHR 0x0C)" by (rule of_char_is) simp
  moreover have "((of_char c :: nat) = 13) = (c = CHR 0x0D)" by (rule of_char_is) simp
  moreover have "((of_char c :: nat) = 32) = (c = CHR 0x20)" by (rule of_char_is) simp
  moreover have "((of_char c :: nat) = 160) = (c = CHR 0xA0)" by (rule of_char_is) simp
  ultimately show ?thesis
    by (simp add: isSpace_def whiteSpace_def)
qed

text \<open>
  The e-mail test accepts exactly the strings of the regular expression's language.
\<close>

lemma list_all_emailChar_takeWhile: "list_all emailChar (takeWhile emailChar s)"
  by (induction s) auto

lemma isValidEmail_regex:
  "isValidEmail s \<longleftrightarrow> (\<exists>a b c. s = a @ ''@'' @ b @ ''.'' @ c \<and> a \<noteq> [] \<and> b \<noteq> [] \<and> c \<noteq> []
          \<and> list_all emailChar a \<and> list_all emailChar b \<and> list_all emailChar c)"
  (is "?L \<longleftrightarrow> ?R")
proof
  assume L: ?L
  define a where "a = takeWhile emailChar s"
  obtain ch rest where dw: "dropWhile emailChar s = ch # rest"
    using L by (auto simp: isValidEmail_def split: list.splits)
  have ch: "ch = CHR ''@''" and rest: "list_all emailChar rest" and dot: "CHR ''.'' \<in> set (butlast (tl rest))"
    using L dw by (auto simp: isValidEmail_def)
  have a: "a \<noteq> []" using L by (simp add: isValidEmail_def a_def)
  have "s = a @ dropWhile emailChar s" by (simp add: a_def)
  then have s: "s = a @ ''@'' @ rest" using dw ch by simp
  obtain r0 rs where r: "rest = r0 # rs" using dot by (cases rest) auto
  then have "CHR ''.'' \<in> set (butlast rs)" using dot by simp
  then obtain m1 m2 where bl: "butlast rs = m1 @ CHR ''.'' # m2" by (meson split_list)
  then have rsne: "rs \<noteq> []" by auto
  have "rs = butlast rs @ [last rs]" using rsne by simp
  then have rs: "rs = m1 @ CHR ''.'' # (m2 @ [last rs])"
    using bl by simp
  have s': "s = a @ ''@'' @ (r0 # m1) @ ''.'' @ (m2 @ [last rs])" using s r rs by simp
  have "list_all emailChar (r0 # m1 @ CHR ''.'' # (m2 @ [last rs]))"
    using rest r rs by simp
  then have oks: "list_all emailChar (r0 # m1)" "list_all emailChar (m2 @ [last rs])"
    by simp_all
  have oka: "list_all emailChar a" by (simp add: a_def list_all_emailChar_takeWhile)
  show ?R
    apply (rule exI[of _ a], rule exI[of _ "r0 # m1"], rule exI[of _ "m2 @ [last rs]"])
    using s' a oks oka by simp
next
  assume ?R
  then obtain a b c where s: "s = a @ ''@'' @ b @ ''.'' @ c" and ne: "a \<noteq> []" "b \<noteq> []" "c \<noteq> []"
    and ok: "list_all emailChar a" "list_all emailChar b" "list_all emailChar c" by blast
  have at: "\<not> emailChar CHR ''@''" by (simp add: emailChar_def)
  have tw: "takeWhile emailChar s = a" using s ok(1) at
    by (simp add: list_all_iff)
  have dw: "dropWhile emailChar s = ''@'' @ b @ ''.'' @ c" using s ok(1) at
    by (simp add: list_all_iff)
  have dotok: "emailChar CHR ''.''" by (simp add: emailChar_def isSpace_def)
  obtain b0 bs where b: "b = b0 # bs" using ne(2) by (cases b) auto
  have "butlast (tl (b @ ''.'' @ c)) = bs @ ''.'' @ butlast c"
    using ne(3) b by (simp add: butlast_append)
  then show ?L using tw dw ne ok dotok by (simp add: isValidEmail_def)
qed

lemma emailChar_eq: "(\<lambda>ch. ch \<notin> set whiteSpace \<and> ch \<noteq> CHR ''@'') = emailChar"
  by (rule ext) (simp only: emailChar_def isSpace_whiteSpace)

lemma isValidEmail_emailShape: "isValidEmail s \<longleftrightarrow> emailShape s"
  unfolding emailShape_def emailChar_eq isValidEmail_regex
  by simp

lemma urlStage:
  "(case url c of
      None \<Rightarrow> es @ [''Exchange URL is required'']
    | Some u \<Rightarrow>
        if u = [] then es @ [''Exchange URL is required'']
        else if \<not> isValidEwsUrl newURL u
        then es @ [''URL must be a valid Exchange Web Services (EWS) endpoint (e.g., https://mail.company.com/ews/Exchange.asmx)'']
        else es) = es @ urlErrors newURL c"
  by (simp add: urlErrors_def rule_url_def isValidEwsUrl_def Let_def
      includes_lower_ignoring_case[OF plain_patterns(1)]
      includes_lower_ignoring_case[OF plain_patterns(2)]
      includes_lower_ignoring_case[OF plain_patterns(3)]
      split: option.splits)

lemma usernameStage:
  "(case username c of
      None \<Rightarrow> es @ [''Username is required'']
    | Some n \<Rightarrow>
        if n = [] then es @ [''Username is required'']
        else if \<not> isValidEmail n then es @ [''Username must be a valid email address'']
        else es) = es @ usernameErrors c"
  by (simp add: usernameErrors_def rule_username_def isValidEmail_emailShape
      split: option.splits)

lemma passwordStage:
  "(case password c of
      None \<Rightarrow> es @ [''Password is required'']
    | Some p \<Rightarrow>
        if p = [] then es @ [''Password is required'']
        else if length p < 1 then es @ [''Password cannot be empty'']
        else es) = es @ passwordErrors c"
  by (simp add: passwordErrors_def rule_password_def split: option.splits)

lemma authStage:
  "(case authenticationMethod c of
      None \<Rightarrow> es
    | Some m \<Rightarrow>
        if m \<notin> set ExchangeAuthentication_values then es @ [''Invalid authentication method'']
        else es) = es @ authErrors c"
  by (simp add: authErrors_def rule_authenticationMethod_def ExchangeAuthentication_values_def
      split: option.splits)

lemma versionStage:
  "(case exchangeVersion c of
      None \<Rightarrow> es
    | Some v \<Rightarrow> if v \<notin> set ExchangeVersion_values then es @ [''Invalid Exchange version''] else es)
   = es @ versionErrors c"
  by (simp add: versionErrors_def rule_exchangeVersion_def split: option.splits)

lemma validate_stages:
  "validate newURL c =
     (let es = urlErrors newURL c @ usernameErrors c @ passwordErrors c @ authErrors c @ versionErrors c
      in \<lparr>isValid = (length es = 0), errors = es\<rparr>)"
  unfolding validate_def
  by (simp only: urlStage usernameStage passwordStage authStage versionStage Let_def
      append_Nil append_assoc)

lemma validate_errors_chunks:
  "errors (validate newURL c) =
     urlErrors newURL c @ usernameErrors c @ passwordErrors c @ authErrors c @ versionErrors c"
  by (simp add: validate_stages Let_def)

lemma validate_isValid: "isValid (validate newURL c) = (errors (validate newURL c) = [])"
  by (simp add: validate_stages Let_def)

lemma errors_distinct: "distinct (errors (validate newURL c))"
  unfolding validate_errors_chunks
  by (simp add: urlErrors_def usernameErrors_def passwordErrors_def authErrors_def versionErrors_def)

lemma errors_length: "length (errors (validate newURL c)) = violatedRules newURL c"
  unfolding validate_errors_chunks
  by (simp add: urlErrors_def usernameErrors_def passwordErrors_def authErrors_def versionErrors_def violatedRules_def)

lemma url_rule_messages:
  "rule_url newURL c \<longleftrightarrow>
     ''Exchange URL is required'' \<notin> set (errors (validate newURL c))
     \<and> ''URL must be a valid Exchange Web Services (EWS) endpoint (e.g., https://mail.company.com/ews/Exchange.asmx)''
         \<notin> set (errors (validate newURL c))"
  unfolding validate_errors_chunks
  by (simp add: urlErrors_def usernameErrors_def passwordErrors_def authErrors_def versionErrors_def)

lemma username_rule_messages:
  "rule_username c \<longleftrightarrow>
     ''Username is required'' \<notin> set (errors (validate newURL c))
     \<and> ''Username must be a valid email address'' \<notin> set (errors (validate newURL c))"
  unfolding validate_errors_chunks
  by (simp add: urlErrors_def usernameErrors_def passwordErrors_def authErrors_def versionErrors_def)

lemma password_rule_messages:
  "rule_password c \<longleftrightarrow> ''Password is required'' \<notin> set (errors (validate newURL c))"
  unfolding validate_errors_chunks
  by (simp add: urlErrors_def usernameErrors_def passwordErrors_def authErrors_def versionErrors_def)

lemma auth_rule_messages:
  "rule_authenticationMethod c \<longleftrightarrow>
     ''Invalid authentication method'' \<notin> set (errors (validate newURL c))"
  unfolding validate_errors_chunks
  by (simp add: urlErrors_def usernameErrors_def passwordErrors_def authErrors_def versionErrors_def)

lemma version_rule_messages:
  "rule_exchangeVersion c \<longleftrightarrow> ''Invalid Exchange version'' \<notin> set (errors (validate newURL c))"
  unfolding validate_errors_chunks
  by (simp add: urlErrors_def usernameErrors_def passwordErrors_def authErrors_def versionErrors_def)

lemma empty_fields_three_errors:
  assumes "url c = None \<or> url c = Some []"
    and "username c = None \<or> username c = Some []"
    and "password c = None \<or> password c = Some []"
  shows "take 3 (errors (validate newURL c))
           = [''Exchange URL is required'', ''Username is required'', ''Password is required'']"
proof -
  have "urlErrors newURL c = [''Exchange URL is required'']"
    using assms(1) by (auto simp: urlErrors_def rule_url_def)
  moreover have "usernameErrors c = [''Username is required'']"
    using assms(2) by (auto simp: usernameErrors_def rule_username_def)
  moreover have "passwordErrors c = [''Password is required'']"
    using assms(3) by (auto simp: passwordErrors_def rule_password_def)
  ultimately show ?thesis by (simp add: validate_errors_chunks)
qed

text \<open>
  C6. For every candidate configuration, \<open>validate\<close> returns one message for each violated
  rule among the five rules (\<open>rule_url\<close> with the three substrings matched without regard
  to case, \<open>rule_username\<close> with the e-mail shape, \<open>rule_password\<close> and the two enum
  rules), all of them collected in one call: the number of errors is the
  number of violated rules, the errors are pairwise distinct, each rule is violated exactly
  when one of its messages is in the list, and \<open>isValid\<close> holds exactly when the list is
  empty. With url, username and password empty or absent the list starts with the three
  "required" messages, and these are the whole list when the two enum rules hold.
\<close>

theorem validate_collects_every_violation:
  "length (errors (validate newURL c)) = violatedRules newURL c
   \<and> distinct (errors (validate newURL c))
   \<and> (rule_url newURL c \<longleftrightarrow>
        ''Exchange URL is required'' \<notin> set (errors (validate newURL c))
        \<and> ''URL must be a valid Exchange Web Services (EWS) endpoint (e.g., https://mail.company.com/ews/Exchange.asmx)''
            \<notin> set (errors (validate newURL c)))
   \<and> (rule_username c \<longleftrightarrow>
        ''Username is required'' \<notin> set (errors (validate newURL c))
        \<and> ''Username must be a valid email address'' \<notin> set (errors (validate newURL c)))
   \<and> (rule_password c \<longleftrightarrow> ''Password is required'' \<notin> set (errors (validate newURL c)))
   \<and> (rule_authenticationMethod c \<longleftrightarrow>
        ''Invalid authentication method'' \<notin> set (errors (validate newURL c)))
   \<and> (rule_exchangeVersion c \<longleftrightarrow>
        ''Invalid Exchange version'' \<notin> set (errors (validate newURL c)))
   \<and> (isValid (validate newURL c) \<longleftrightarrow> errors (validate newURL c) = [])
   \<and> ((url c = None \<or> url c = Some []) \<and> (username c = None \<or> username c = Some [])
       \<and> (password c = None \<or> password c = Some [])
       \<longrightarrow> take 3 (errors (validate newURL c))
             = [''Exchange URL is required'', ''Username is required'', ''Password is required''])"
  using errors_length[of newURL c] errors_distinct[of newURL c] url_rule_messages[of newURL c]
    username_rule_messages[of c newURL] password_rule_messages[of c newURL]
    auth_rule_messages[of c newURL] version_rule_messages[of c newURL]
    validate_isValid[of newURL c] empty_fields_three_errors[of c newURL]
  by blast

theorem validate_collects_every_violation_witness:
  "errors (validate exampleNewURL emptyConfig)
     = [''Exchange URL is required'', ''Username is required'', ''Password is required'']
   \<and> violatedRules exampleNewURL emptyConfig = 3
   \<and> \<not> isValid (validate exampleNewURL emptyConfig)"
proof -
  note t = validate_collects_every_violation[of exampleNewURL emptyConfig]
  have v: "violatedRules exampleNewURL emptyConfig = 3"
    by (simp add: violatedRules_def rule_url_def rule_username_def rule_password_def
        rule_authenticationMethod_def rule_exchangeVersion_def emptyConfig_def)
  have e: "url emptyConfig = Some [] \<and> username emptyConfig = Some []
           \<and> password emptyConfig = Some []"
    by (simp add: emptyConfig_def)
  have l: "length (errors (validate exampleNewURL emptyConfig)) = 3"
    using t v by simp
  have "take 3 (errors (validate exampleNewURL emptyConfig))
          = [''Exchange URL is required'', ''Username is required'', ''Password is required'']"
    using t e by blast
  then have "errors (validate exampleNewURL emptyConfig)
          = [''Exchange URL is required'', ''Username is required'', ''Password is required'']"
    using l by simp
  moreover have "\<not> isValid (validate exampleNewURL emptyConfig)"
    using t calculation by simp
  ultimately show ?thesis using v by simp
qed

text \<open>
  The two examples of the specification: a plain-HTTP URL is rejected, and a complete
  configuration with an HTTPS EWS URL is accepted without error. A username that is not an
  e-mail address is rejected.
\<close>

lemma validate_examples:
  "errors (validate exampleNewURL
     \<lparr>url = Some ''http://x/ews/a'', username = Some ''a@b.com'', password = Some ''p'',
      authenticationMethod = None, exchangeVersion = None, useCompression = None\<rparr>)
     = [''URL must be a valid Exchange Web Services (EWS) endpoint (e.g., https://mail.company.com/ews/Exchange.asmx)'']"
  "validate exampleNewURL
     \<lparr>url = Some ''https://mail.company.com/ews/Exchange.asmx'', username = Some ''a@b.com'',
      password = Some ''p'', authenticationMethod = Some 0, exchangeVersion = Some 7,
      useCompression = None\<rparr>
     = \<lparr>isValid = True, errors = []\<rparr>"
  "errors (validate exampleNewURL
     \<lparr>url = Some ''https://mail.company.com/ews/Exchange.asmx'',
      username = Some ''not an email'', password = Some ''p'',
      authenticationMethod = None, exchangeVersion = None, useCompression = None\<rparr>)
     = [''Username must be a valid email address'']"
  by code_simp+

section \<open>Properties of the suggestions\<close>

text \<open>
  A version that is not zero and lies before the cut-off gets the suggestion, provided the
  URL, if there is one, parses.
\<close>

lemma getSuggestions_upgrade_nonzero:
  assumes "exchangeVersion c = Some v" and "v \<noteq> 0" and "v < Exchange2013"
    and "url c = None \<or> url c = Some [] \<or> (\<exists>u urlObj. url c = Some u \<and> newURL u = Some urlObj)"
  shows "\<exists>suggestions. getSuggestions newURL c = Inr suggestions
           \<and> ''Consider upgrading to Exchange 2013 or later for better compatibility''
               \<in> set suggestions"
  using assms
  by (auto simp: getSuggestions_def Let_def split: option.splits)

text \<open>
  C9. For every configuration whose \<open>exchangeVersion\<close> is set and lies before the cut-off
  \<open>Exchange2013\<close>, \<open>getSuggestions\<close> should return a list with the upgrade suggestion.
  The test \<open>config.exchangeVersion && ...\<close> is false for the member numbered zero:
  for a complete configuration of an Exchange 2007 SP1 server the list is empty.
\<close>

theorem getSuggestions_omits_upgrade_for_version_zero:
  "getSuggestions exampleNewURL oldServerConfig = Inr []
   \<and> exchangeVersion oldServerConfig = Some Exchange2007_SP1
   \<and> Exchange2007_SP1 < Exchange2013
   \<and> Exchange2007_SP1 \<in> set ExchangeVersion_values"
  by (simp add: getSuggestions_def oldServerConfig_def exampleNewURL_def toLowerCase_def
      lowerChar_def Exchange2007_SP1_def Exchange2013_def STANDARD_def NTLM_def
      ExchangeVersion_values_def)

section \<open>Properties of the adapter\<close>

subsection \<open>Handle acquisition\<close>

lemma getExchangeService_cached:
  "exchangeService a = Some s \<Longrightarrow> getExchangeService lib a = (Inr s, a)"
  by (simp add: getExchangeService_def)

lemma getExchangeService_Inr:
  "getExchangeService lib a = (Inr s, a1) \<Longrightarrow> exchangeService a1 = Some s"
  by (auto simp: getExchangeService_def split: option.splits prod.splits sum.splits)

lemma getExchangeService_Inl:
  "getExchangeService lib a = (Inl e, a1) \<Longrightarrow> exchangeService a = None \<and> exchangeService a1 = None"
  by (auto simp: getExchangeService_def buildService_def Let_def split: option.splits prod.splits sum.splits if_splits)

lemma classify_missing:
  "classify (Error ''Missing required Exchange configuration parameters'')
     = Error ''Missing required Exchange configuration parameters''"
  by (simp add: classify_def)

lemma buildService_missing:
  "\<not> truthy (getProp (payload a) ''url'') \<or> \<not> truthy (getProp (payload a) ''username'')
     \<or> \<not> truthy (getProp (payload a) ''password'')
   \<Longrightarrow> buildService lib a = (Inl (Error ''Missing required Exchange configuration parameters''), a)"
  by (simp add: buildService_def Let_def)

lemma getExchangeService_missing:
  assumes "exchangeService a = None"
    and "\<not> truthy (getProp (payload a) ''url'') \<or> \<not> truthy (getProp (payload a) ''username'')
     \<or> \<not> truthy (getProp (payload a) ''password'')"
  shows "getExchangeService lib a = (Inl (Error ''Missing required Exchange configuration parameters''), a)"
  using assms(1) buildService_missing[OF assms(2), of lib]
  by (simp add: getExchangeService_def classify_missing)

lemma fresh_handle_numbered:
  "exchangeService a = None \<Longrightarrow> getExchangeService lib a = (Inr s, a1) \<Longrightarrow>
   serviceId s = servicesConstructed a \<and> servicesConstructed a1 = Suc (servicesConstructed a)"
  by (auto simp: getExchangeService_def buildService_def Let_def
      split: option.splits prod.splits sum.splits if_splits)

text \<open>
  \<open>cleanup\<close> drops the handle, and the next acquisition that succeeds constructs a new one.
\<close>

lemma cleanup_drops_handle: "exchangeService (cleanup a) = None"
  by (simp add: cleanup_def split: option.splits)

lemma cleanup_then_fresh_handle:
  assumes "exchangeService a = Some s" and "serviceId s < servicesConstructed a"
    and "getExchangeService lib (cleanup a) = (Inr s', a1)"
  shows "serviceId s' \<noteq> serviceId s"
proof -
  have "servicesConstructed (cleanup a) = servicesConstructed a"
    by (simp add: cleanup_def split: option.splits)
  then have "serviceId s' = servicesConstructed a"
    using fresh_handle_numbered[OF cleanup_drops_handle assms(3)] by simp
  then show ?thesis using assms(2) by simp
qed

subsection \<open>Filling an appointment\<close>

lemma addAttendees_eq:
  "addAttendees people ap = ap\<lparr>RequiredAttendees := RequiredAttendees ap @ map email people\<rparr>"
  unfolding addAttendees_def
  by (induction people arbitrary: ap) auto

lemma fillAppointment_new:
  assumes "DateTime_Parse lib (startTime event) = Inr parsedStart"
    and "DateTime_Parse lib (endTime event) = Inr parsedEnd"
  shows "fillAppointment lib event newAppointment =
     Inr \<lparr>ItemId = None, Subject = title event,
          Start = parsedStart, End = parsedEnd,
          Location = (case location event of None \<Rightarrow> [] | Some l \<Rightarrow> l),
          Body = (case description event of None \<Rightarrow> [] | Some d \<Rightarrow> d),
          RequiredAttendees =
            map email (attendees event)
            @ (case team event of None \<Rightarrow> [] | Some t \<Rightarrow> map email (members t)),
          FreeBusyStatus = Busy\<rparr>"
  using assms
  by (simp add: fillAppointment_def newAppointment_def addAttendees_eq orEmpty_def
      split: option.splits)

subsection \<open>Runs on the in-memory server\<close>

lemma example_acquire:
  "getExchangeService memEws exampleAdapter = (Inr exampleHandle, connectedAdapter)"
  by (simp add: getExchangeService_def buildService_def memEws_def exampleAdapter_def
      examplePayload_def exampleHandle_def connectedAdapter_def NTLM_def requestedVersion_def
      Let_def)

lemma example_reacquire:
  "getExchangeService memEws connectedAdapter = (Inr exampleHandle, connectedAdapter)"
  by (simp add: getExchangeService_def connectedAdapter_def)

lemma example_bind_deleted:
  "Folder_Bind_DeletedItems memEws exampleHandle exampleServer
     = (Inr \<lparr>FolderId = ''deleteditems'', ParentFolderId = ''root'',
              DisplayName = Some ''Deleted Items'', ChildFolderCount = 0\<rparr>,
        exampleServer\<lparr>requests := 1\<rparr>)"
  by (simp add: memEws_def exampleServer_def)

lemma example_find_folders:
  "FindFolders memEws exampleHandle (exampleServer\<lparr>requests := 1\<rparr>)
     = (Inr (mailFolders exampleServer), exampleServer\<lparr>requests := 2\<rparr>)"
  by (simp add: memEws_def exampleServer_def)

lemma example_listCalendars:
  "listCalendars memEws exampleAdapter exampleServer
     = (Inr exampleCalendars, connectedAdapter, exampleServer\<lparr>requests := 2\<rparr>)"
  by (simp add: listCalendars_def example_acquire)
     (simp add: memEws_def exampleServer_def toCalendar_def exampleCalendars_def
        connectedAdapter_def)

lemma example_parse_start:
  "DateTime_Parse memEws (startTime exampleEvent) = Inr 1704103200000"
  by (simp add: memEws_def exampleEvent_def exampleDateParse_def)

lemma example_parse_end:
  "DateTime_Parse memEws (endTime exampleEvent) = Inr 1704106800000"
  by (simp add: memEws_def exampleEvent_def exampleDateParse_def)

lemma example_parse_from:
  "DateTime_Parse memEws ''2024-01-01T00:00:00Z'' = Inr 1704067200000"
  by (simp add: memEws_def exampleDateParse_def)

lemma example_parse_to:
  "DateTime_Parse memEws ''2024-01-02T00:00:00Z'' = Inr 1704153600000"
  by (simp add: memEws_def exampleDateParse_def)

lemma example_save:
  "Save memEws exampleHandle
     \<lparr>ItemId = None, Subject = title exampleEvent,
      Start = 1704103200000, End = 1704106800000,
      Location = (case location exampleEvent of None \<Rightarrow> [] | Some l \<Rightarrow> l),
      Body = (case description exampleEvent of None \<Rightarrow> [] | Some d \<Rightarrow> d),
      RequiredAttendees =
        map email (attendees exampleEvent)
        @ (case team exampleEvent of None \<Rightarrow> [] | Some t \<Rightarrow> map email (members t)),
      FreeBusyStatus = Busy\<rparr> exampleServer = (Inr ''i'', createdServer)"
  by (simp add: memEws_def exampleEvent_def createdServer_def exampleAppointment_def
      exampleServer_def)

lemma example_create:
  "createEvent memEws exampleEvent connectedAdapter exampleServer
     = (Inr \<lparr>uid = ''i'', id' = ''i'', password' = [], type' = [], url' = [],
             additionalInfo = []\<rparr>, connectedAdapter, createdServer)"
  by (simp add: createEvent_def example_reacquire
      fillAppointment_new[OF example_parse_start example_parse_end] example_save eventResult_def)

lemma example_delete:
  "deleteEvent memEws ''i'' connectedAdapter createdServer
     = (Inr (), connectedAdapter, deletedServer)"
  by (simp add: deleteEvent_def example_reacquire)
     (simp add: memEws_def createdServer_def deletedServer_def exampleServer_def)

lemma example_bind_after_delete:
  "Appointment_Bind memEws exampleHandle ''i'' deletedServer
     = (Inl (Error ''The specified object was not found in the store.''),
        deletedServer\<lparr>requests := 4\<rparr>)"
  by (simp add: memEws_def deletedServer_def createdServer_def exampleServer_def)

lemma example_bind_unknown:
  "Appointment_Bind memEws exampleHandle ''zzz'' exampleServer
     = (Inl (Error ''The specified object was not found in the store.''),
        exampleServer\<lparr>requests := 1\<rparr>)"
  by (simp add: memEws_def exampleServer_def)

lemma example_acquire_ntlm:
  "getExchangeService memEws ntlmAdapter
     = (Inr ntlmHandle,
        ntlmAdapter\<lparr>servicesConstructed := 1, exchangeService := Some ntlmHandle\<rparr>)"
  by (simp add: getExchangeService_def buildService_def memEws_def ntlmAdapter_def
      ntlmHandle_def NTLM_def requestedVersion_def Exchange2013_SP1_def Let_def)

text \<open>The in-memory server honours deletion.\<close>

lemma map_of_filter_other_key: "map_of (filter (\<lambda>kv. fst kv \<noteq> u) xs) u = None"
  by (induction xs) auto

lemma memEws_forgetsDeleted:
  "forgetsDeleted memEws (\<lambda>e. e = Error ''The specified object was not found in the store.'')"
  unfolding forgetsDeleted_def
  by (auto simp: memEws_def map_of_filter_other_key split: option.splits)

subsection \<open>Construction\<close>

text \<open>
  C3. For every credential blob whose decryption or JSON parsing fails (the secret may be
  absent, in which case the empty string is the key), construction fails with the error
  "Invalid or corrupted Exchange credentials" and yields no adapter; an adapter that
  construction does yield holds the parsed payload and no cached handle.
\<close>

theorem construction_fails_on_bad_credentials:
  "((\<exists>e. symmetricDecrypt (orEmpty (key credential)) (orEmpty envKey) = Inl e)
    \<or> (\<exists>text e. symmetricDecrypt (orEmpty (key credential)) (orEmpty envKey) = Inr text
               \<and> JSON_parse text = Inl e)
    \<longrightarrow> newExchangeCalendarService symmetricDecrypt JSON_parse envKey credential
          = Inl (Error ''Invalid or corrupted Exchange credentials''))
   \<and> (\<forall>a. newExchangeCalendarService symmetricDecrypt JSON_parse envKey credential = Inr a
          \<longrightarrow> exchangeService a = None
              \<and> (\<exists>text. symmetricDecrypt (orEmpty (key credential)) (orEmpty envKey) = Inr text
                         \<and> JSON_parse text = Inr (payload a)))"
  by (auto simp: newExchangeCalendarService_def split: sum.splits)

theorem construction_fails_on_bad_credentials_witness:
  "exampleDecrypt (orEmpty (key \<lparr>key = Some ''abc''\<rparr>)) (orEmpty None) = Inl (Error ''Invalid key length'')
   \<and> newExchangeCalendarService exampleDecrypt exampleParse None \<lparr>key = Some ''abc''\<rparr>
       = Inl (Error ''Invalid or corrupted Exchange credentials'')
   \<and> exampleDecrypt (orEmpty (key \<lparr>key = Some ''abc''\<rparr>)) (orEmpty (Some ''k'')) = Inr ''abc''
   \<and> exampleParse ''abc'' = Inl (Error ''Unexpected token'')
   \<and> newExchangeCalendarService exampleDecrypt exampleParse (Some ''k'') \<lparr>key = Some ''abc''\<rparr>
       = Inl (Error ''Invalid or corrupted Exchange credentials'')
   \<and> newExchangeCalendarService exampleDecrypt exampleParse (Some ''k'') \<lparr>key = Some ''{}''\<rparr>
       = Inr \<lparr>integrationName = ''exchange_calendar'', payload = JObj [],
              exchangeService = None, servicesConstructed = 0\<rparr>"
proof -
  have d1: "exampleDecrypt (orEmpty (key \<lparr>key = Some ''abc''\<rparr>)) (orEmpty None)
              = Inl (Error ''Invalid key length'')"
    by (simp add: exampleDecrypt_def orEmpty_def)
  have d2: "exampleDecrypt (orEmpty (key \<lparr>key = Some ''abc''\<rparr>)) (orEmpty (Some ''k''))
              = Inr ''abc''"
    by (simp add: exampleDecrypt_def orEmpty_def)
  have p2: "exampleParse ''abc'' = Inl (Error ''Unexpected token'')"
    by (simp add: exampleParse_def)
  have r1: "newExchangeCalendarService exampleDecrypt exampleParse None \<lparr>key = Some ''abc''\<rparr>
       = Inl (Error ''Invalid or corrupted Exchange credentials'')"
    using construction_fails_on_bad_credentials
      [of exampleDecrypt "\<lparr>key = Some ''abc''\<rparr>" None exampleParse] d1
    by blast
  have r2: "newExchangeCalendarService exampleDecrypt exampleParse (Some ''k'') \<lparr>key = Some ''abc''\<rparr>
       = Inl (Error ''Invalid or corrupted Exchange credentials'')"
    using construction_fails_on_bad_credentials
      [of exampleDecrypt "\<lparr>key = Some ''abc''\<rparr>" "Some ''k''" exampleParse] d2 p2
    by blast
  have r3: "newExchangeCalendarService exampleDecrypt exampleParse (Some ''k'') \<lparr>key = Some ''{}''\<rparr>
       = Inr \<lparr>integrationName = ''exchange_calendar'', payload = JObj [],
              exchangeService = None, servicesConstructed = 0\<rparr>"
    by (simp add: newExchangeCalendarService_def exampleDecrypt_def exampleParse_def orEmpty_def)
  show ?thesis using d1 d2 p2 r1 r2 r3 by blast
qed

subsection \<open>Missing configuration\<close>

text \<open>
  C4. For every payload in which url, username or password is missing or empty (or falsy
  in any other way) and an adapter without cached handle, each public operation fails with
  the error "Missing required Exchange configuration parameters" and leaves the adapter and
  the world as they were, whatever the library and the server are: no call reaches them.
  The outer handler passes this error on unchanged.
\<close>

theorem missing_config_fails_before_any_call:
  assumes "exchangeService a = None"
    and "\<not> truthy (getProp (payload a) ''url'') \<or> \<not> truthy (getProp (payload a) ''username'')
         \<or> \<not> truthy (getProp (payload a) ''password'')"
  shows "createEvent lib event a w
           = (Inl (Error ''Missing required Exchange configuration parameters''), a, w)
       \<and> updateEvent lib u event a w
           = (Inl (Error ''Missing required Exchange configuration parameters''), a, w)
       \<and> deleteEvent lib u a w
           = (Inl (Error ''Missing required Exchange configuration parameters''), a, w)
       \<and> listCalendars lib a w
           = (Inl (Error ''Missing required Exchange configuration parameters''), a, w)
       \<and> getAvailability lib dateFrom dateTo selectedCalendars a w
           = (Inl (Error ''Missing required Exchange configuration parameters''), a, w)
       \<and> classify (Error ''Missing required Exchange configuration parameters'')
           = Error ''Missing required Exchange configuration parameters''"
proof -
  note g = getExchangeService_missing[OF assms, of lib]
  have l: "listCalendars lib a w
           = (Inl (Error ''Missing required Exchange configuration parameters''), a, w)"
    by (simp add: listCalendars_def g)
  have "createEvent lib event a w
           = (Inl (Error ''Missing required Exchange configuration parameters''), a, w)"
    by (simp add: createEvent_def g)
  moreover have "updateEvent lib u event a w
           = (Inl (Error ''Missing required Exchange configuration parameters''), a, w)"
    by (simp add: updateEvent_def g)
  moreover have "deleteEvent lib u a w
           = (Inl (Error ''Missing required Exchange configuration parameters''), a, w)"
    by (simp add: deleteEvent_def g)
  moreover have "getAvailability lib dateFrom dateTo selectedCalendars a w
           = (Inl (Error ''Missing required Exchange configuration parameters''), a, w)"
    by (simp add: getAvailability_def l)
  ultimately show ?thesis using l classify_missing by simp
qed

theorem missing_config_fails_before_any_call_witness:
  "exchangeService incompleteAdapter = None
   \<and> \<not> truthy (getProp (payload incompleteAdapter) ''url'')
   \<and> \<not> truthy (getProp (payload incompleteAdapter) ''password'')
   \<and> listCalendars memEws incompleteAdapter exampleServer
       = (Inl (Error ''Missing required Exchange configuration parameters''),
          incompleteAdapter, exampleServer)
   \<and> createEvent memEws exampleEvent incompleteAdapter exampleServer
       = (Inl (Error ''Missing required Exchange configuration parameters''),
          incompleteAdapter, exampleServer)
   \<and> requests exampleServer = 0"
proof -
  have h1: "exchangeService incompleteAdapter = None"
    by (simp add: incompleteAdapter_def)
  have u: "\<not> truthy (getProp (payload incompleteAdapter) ''url'')"
    by (simp add: incompleteAdapter_def)
  have p: "\<not> truthy (getProp (payload incompleteAdapter) ''password'')"
    by (simp add: incompleteAdapter_def)
  from u have h2: "\<not> truthy (getProp (payload incompleteAdapter) ''url'')
         \<or> \<not> truthy (getProp (payload incompleteAdapter) ''username'')
         \<or> \<not> truthy (getProp (payload incompleteAdapter) ''password'')"
    by blast
  note t = missing_config_fails_before_any_call[OF h1 h2,
      of memEws exampleEvent exampleServer "''i''" "''2024-01-01T00:00:00Z''"
        "''2024-01-02T00:00:00Z''" exampleSelected]
  have "requests exampleServer = 0" by (simp add: exampleServer_def)
  then show ?thesis using t h1 u p by blast
qed

subsection \<open>The cached handle\<close>

lemma queryCalendar_cached_adapter:
  assumes "exchangeService a = Some service"
  shows "fst (snd (queryCalendar lib dateFrom dateTo calendar a w)) = a"
  by (simp add: queryCalendar_def getExchangeService_cached[OF assms]
      split: prod.splits sum.splits)

lemma queryCalendar_cached:
  assumes "exchangeService a = Some service"
    and "DateTime_Parse lib dateFrom = Inr parsedFrom"
    and "DateTime_Parse lib dateTo = Inr parsedTo"
  shows "queryCalendar lib dateFrom dateTo calendar a w =
           (case FindAppointments lib service (externalId calendar) parsedFrom parsedTo w of
              (Inl reason, w1) \<Rightarrow> (Inl reason, a, w1)
            | (Inr items, w1) \<Rightarrow> (Inr (busyIntervals items), a, w1))"
  by (simp add: queryCalendar_def getExchangeService_cached[OF assms(1)] assms(2,3)
      busyIntervals_def toBusyDate_def split: prod.splits sum.splits)

text \<open>A date that does not parse rejects the query before anything is sent.\<close>

lemma queryCalendar_rejects_bad_date:
  assumes "exchangeService a = Some service"
    and "DateTime_Parse lib dateFrom = Inl e
         \<or> (\<exists>parsedFrom. DateTime_Parse lib dateFrom = Inr parsedFrom)
            \<and> DateTime_Parse lib dateTo = Inl e"
  shows "queryCalendar lib dateFrom dateTo calendar a w = (Inl e, a, w)"
  using assms(2)
  by (auto simp: queryCalendar_def getExchangeService_cached[OF assms(1)])

lemma queryCalendars_cached_adapter:
  "exchangeService a = Some service \<Longrightarrow>
   fst (snd (queryCalendars lib dateFrom dateTo cals a w)) = a"
proof (induction cals arbitrary: w)
  case Nil
  then show ?case by simp
next
  case (Cons c cs)
  obtain r w1 where q: "queryCalendar lib dateFrom dateTo c a w = (r, a, w1)"
    using queryCalendar_cached_adapter[OF Cons.prems, of lib dateFrom dateTo c w]
    by (cases "queryCalendar lib dateFrom dateTo c a w") auto
  show ?case using Cons.IH[OF Cons.prems, of w1] q
    by (auto split: prod.splits)
qed

lemma queryCalendars_all_ok:
  assumes "exchangeService a = Some service"
    and "DateTime_Parse lib dateFrom = Inr parsedFrom"
    and "DateTime_Parse lib dateTo = Inr parsedTo"
  shows "fetchAll lib service parsedFrom parsedTo (map externalId cals) w = (map Inr results, w2)
         \<Longrightarrow> queryCalendars lib dateFrom dateTo cals a w
             = (map (\<lambda>items. Inr (busyIntervals items)) results, a, w2)"
proof (induction cals arbitrary: w results)
  case Nil
  then show ?case by auto
next
  case (Cons c cs)
  obtain r w1 where f: "FindAppointments lib service (externalId c) parsedFrom parsedTo w = (r, w1)"
    by (cases "FindAppointments lib service (externalId c) parsedFrom parsedTo w") auto
  obtain rs w3 where g: "fetchAll lib service parsedFrom parsedTo (map externalId cs) w1 = (rs, w3)"
    by (cases "fetchAll lib service parsedFrom parsedTo (map externalId cs) w1") auto
  from Cons.prems f g have eq: "r # rs = map Inr results" and w: "w3 = w2" by simp_all
  then obtain items rest where res: "results = items # rest" and r: "r = Inr items"
    and rs: "rs = map Inr rest" by (cases results) auto
  have q: "queryCalendar lib dateFrom dateTo c a w = (Inr (busyIntervals items), a, w1)"
    using queryCalendar_cached[OF assms, of c w] f r by simp
  have "queryCalendars lib dateFrom dateTo cs a w1
             = (map (\<lambda>items. Inr (busyIntervals items)) rest, a, w2)"
    using Cons.IH[of w1 rest] g rs w by simp
  then show ?case using q res by simp
qed

lemma rejections_map_fulfilled: "rejections (map (\<lambda>x. Inr (f x)) xs) = []"
  by (induction xs) auto

lemma fulfilments_map_fulfilled: "fulfilments (map (\<lambda>x. Inr (f x)) xs) = map f xs"
  by (induction xs) auto

lemma Promise_all_map_fulfilled: "Promise_all k (map (\<lambda>x. Inr (f x)) xs) = Inr (map f xs)"
  by (simp add: Promise_all_def rejections_map_fulfilled fulfilments_map_fulfilled)

lemma listCalendars_Inr:
  "listCalendars lib a w = (Inr cals, a1, w1) \<Longrightarrow> \<exists>service. exchangeService a1 = Some service"
  by (auto simp: listCalendars_def split: prod.splits sum.splits dest: getExchangeService_Inr)

lemma operation_cached_adapter:
  assumes "exchangeService a = Some service"
  shows "fst (runOperation lib x (a, w)) = a"
proof (cases x)
  case (CreateEvent event)
  then show ?thesis
    by (simp add: createEvent_def getExchangeService_cached[OF assms]
        split: prod.splits sum.splits)
next
  case (UpdateEvent u event)
  then show ?thesis
    by (simp add: updateEvent_def getExchangeService_cached[OF assms]
        split: prod.splits sum.splits option.splits)
next
  case (DeleteEvent u)
  then show ?thesis
    by (simp add: deleteEvent_def getExchangeService_cached[OF assms]
        split: prod.splits sum.splits option.splits)
next
  case ListCalendars
  then show ?thesis
    by (simp add: listCalendars_def getExchangeService_cached[OF assms]
        split: prod.splits sum.splits)
next
  case (GetAvailability dateFrom dateTo selected)
  have l: "fst (snd (listCalendars lib a w)) = a"
    by (simp add: listCalendars_def getExchangeService_cached[OF assms]
        split: prod.splits sum.splits)
  show ?thesis
  proof (cases "listCalendars lib a w")
    case (fields r a1 w1)
    then have a1: "a1 = a" using l by simp
    show ?thesis
    proof (cases r)
      case (Inl e)
      then show ?thesis using GetAvailability fields a1 by (simp add: getAvailability_def)
    next
      case (Inr calendars)
      have "fst (snd (queryCalendars lib dateFrom dateTo
                  (filter (\<lambda>lcal. list_ex (\<lambda>rcal. externalId lcal = externalId rcal) selected)
                     calendars) a w1)) = a"
        using queryCalendars_cached_adapter[OF assms] .
      then show ?thesis using GetAvailability fields a1 Inr
        by (auto simp: getAvailability_def split: prod.splits sum.splits)
    qed
  qed
qed

lemma operations_cached_adapter:
  "exchangeService a = Some service \<Longrightarrow> fst (runOperations lib xs (a, w)) = a"
proof (induction xs arbitrary: w)
  case Nil
  then show ?case by simp
next
  case (Cons x xs)
  obtain w1 where "runOperation lib x (a, w) = (a, w1)"
    using operation_cached_adapter[OF Cons.prems, of lib x w]
    by (cases "runOperation lib x (a, w)") auto
  then show ?case using Cons.IH[OF Cons.prems, of w1] by simp
qed

lemma runOperations_append:
  "runOperations lib (xs @ ys) s = runOperations lib ys (runOperations lib xs s)"
  by (induction xs arbitrary: s) auto

text \<open>
  C5. If a cached handle is present, handle acquisition returns it and changes nothing.
  In every sequence of public operations (none of them \<open>cleanup\<close>), once the adapter holds
  a handle, every later operation leaves the whole adapter as it is: the handle stays the
  same object, no further handle is constructed, and acquisition keeps returning it. So any
  two handles held at two points of one run are the same.
\<close>

theorem handle_constructed_at_most_once:
  "(\<forall>holder cached. exchangeService holder = Some cached \<longrightarrow>
        getExchangeService lib holder = (Inr cached, holder))
   \<and> (exchangeService (fst (runOperations lib before (a, w))) = Some service \<longrightarrow>
        fst (runOperations lib (before @ after) (a, w)) = fst (runOperations lib before (a, w))
        \<and> getExchangeService lib (fst (runOperations lib (before @ after) (a, w)))
            = (Inr service, fst (runOperations lib before (a, w))))
   \<and> (\<forall>s1 s2. exchangeService (fst (runOperations lib before (a, w))) = Some s1
              \<and> exchangeService (fst (runOperations lib (before @ after) (a, w))) = Some s2
              \<longrightarrow> s1 = s2)"
proof -
  have frozen: "fst (runOperations lib (before @ after) (a, w)) = fst (runOperations lib before (a, w))"
    if "exchangeService (fst (runOperations lib before (a, w))) = Some s" for s
  proof -
    obtain a1 w1 where r: "runOperations lib before (a, w) = (a1, w1)"
      by (cases "runOperations lib before (a, w)") auto
    then have "exchangeService a1 = Some s" using that by simp
    then have "fst (runOperations lib after (a1, w1)) = a1"
      by (rule operations_cached_adapter)
    then show ?thesis using r by (simp add: runOperations_append)
  qed
  have one: "\<forall>holder cached. exchangeService holder = Some cached \<longrightarrow>
        getExchangeService lib holder = (Inr cached, holder)"
    by (simp add: getExchangeService_cached)
  have two: "exchangeService (fst (runOperations lib before (a, w))) = Some service \<longrightarrow>
        fst (runOperations lib (before @ after) (a, w)) = fst (runOperations lib before (a, w))
        \<and> getExchangeService lib (fst (runOperations lib (before @ after) (a, w)))
            = (Inr service, fst (runOperations lib before (a, w)))"
    using frozen by (simp add: getExchangeService_cached)
  have three: "\<forall>s1 s2. exchangeService (fst (runOperations lib before (a, w))) = Some s1
              \<and> exchangeService (fst (runOperations lib (before @ after) (a, w))) = Some s2
              \<longrightarrow> s1 = s2"
    using frozen by auto
  show ?thesis using one two three by blast
qed

theorem handle_constructed_at_most_once_witness:
  "exchangeService (fst (runOperations memEws [ListCalendars] (exampleAdapter, exampleServer)))
     = Some exampleHandle
   \<and> fst (runOperations memEws
            ([ListCalendars] @ [CreateEvent exampleEvent, DeleteEvent ''i'', ListCalendars,
                                GetAvailability ''2024-01-01T00:00:00Z''
                                  ''2024-01-02T00:00:00Z'' exampleSelected])
            (exampleAdapter, exampleServer)) = connectedAdapter
   \<and> servicesConstructed connectedAdapter = 1
   \<and> exchangeService connectedAdapter = Some exampleHandle
   \<and> getExchangeService memEws connectedAdapter = (Inr exampleHandle, connectedAdapter)"
proof -
  have r: "runOperations memEws [ListCalendars] (exampleAdapter, exampleServer)
             = (connectedAdapter, exampleServer\<lparr>requests := 2\<rparr>)"
    by (simp add: example_listCalendars)
  have c: "exchangeService connectedAdapter = Some exampleHandle"
    by (simp add: connectedAdapter_def)
  have h: "exchangeService (fst (runOperations memEws [ListCalendars] (exampleAdapter, exampleServer)))
             = Some exampleHandle"
    using r c by simp
  note t = handle_constructed_at_most_once[where lib = memEws and a = exampleAdapter
      and w = exampleServer and service = exampleHandle and before = "[ListCalendars]"
      and after = "[CreateEvent exampleEvent, DeleteEvent ''i'', ListCalendars,
        GetAvailability ''2024-01-01T00:00:00Z'' ''2024-01-02T00:00:00Z''
          exampleSelected]"]
  have "fst (runOperations memEws
            ([ListCalendars] @ [CreateEvent exampleEvent, DeleteEvent ''i'', ListCalendars,
                                GetAvailability ''2024-01-01T00:00:00Z''
                                  ''2024-01-02T00:00:00Z'' exampleSelected])
            (exampleAdapter, exampleServer)) = connectedAdapter"
    using t h r by simp
  moreover have "getExchangeService memEws connectedAdapter = (Inr exampleHandle, connectedAdapter)"
    using t c by blast
  moreover have "servicesConstructed connectedAdapter = 1"
    by (simp add: connectedAdapter_def)
  ultimately show ?thesis using h c by blast
qed

subsection \<open>No range check at acquisition\<close>

text \<open>
  C10. For every payload whose url, username and password are truthy, acquisition on an
  adapter without cached handle raises no enum-range error. The \<open>exchangeVersion\<close> of the
  payload is handed to the library's constructor as it is, on the NTLM path as on the other
  one, and the handle requests that number whatever it is (the library's default when the
  value is not a number). Every \<open>authenticationMethod\<close> other than the NTLM member, inside
  or outside the enum, gives a handle with the default (Basic) transport; the NTLM member
  gives the NTLM transport. An acquisition that fails throws the classified error of one of
  the library's constructors or of the NTLM set-up, and nothing else.
\<close>

theorem acquisition_has_no_range_check:
  assumes "exchangeService a = None"
    and "truthy (getProp (payload a) ''url'')"
    and "truthy (getProp (payload a) ''username'')"
    and "truthy (getProp (payload a) ''password'')"
  shows "(newExchangeService lib (getProp (payload a) ''exchangeVersion'') = None
          \<and> newWebCredentials lib (getProp (payload a) ''username'') (getProp (payload a) ''password'') = None
          \<and> newUri lib (getProp (payload a) ''url'') = None
          \<and> getProp (payload a) ''authenticationMethod'' \<noteq> JNum NTLM
          \<longrightarrow> getExchangeService lib a =
                (Inr \<lparr>serviceId = servicesConstructed a,
                      RequestedServerVersion =
                        (case getProp (payload a) ''exchangeVersion'' of
                           JNum n \<Rightarrow> n | _ \<Rightarrow> Exchange2013_SP1),
                      Credentials = (getProp (payload a) ''username'', getProp (payload a) ''password''),
                      Url = getProp (payload a) ''url'',
                      XHRApi = None\<rparr>,
                 a\<lparr>servicesConstructed := Suc (servicesConstructed a),
                   exchangeService := Some
                     \<lparr>serviceId = servicesConstructed a,
                      RequestedServerVersion =
                        (case getProp (payload a) ''exchangeVersion'' of
                           JNum n \<Rightarrow> n | _ \<Rightarrow> Exchange2013_SP1),
                      Credentials = (getProp (payload a) ''username'', getProp (payload a) ''password''),
                      Url = getProp (payload a) ''url'',
                      XHRApi = None\<rparr>\<rparr>))
       \<and> (newExchangeService lib (getProp (payload a) ''exchangeVersion'') = None
          \<and> newWebCredentials lib (getProp (payload a) ''username'') (getProp (payload a) ''password'') = None
          \<and> newUri lib (getProp (payload a) ''url'') = None
          \<and> getProp (payload a) ''authenticationMethod'' = JNum NTLM
          \<and> ntlmXhr lib (getProp (payload a) ''username'') (getProp (payload a) ''password'') = None
          \<longrightarrow> getExchangeService lib a =
                (Inr \<lparr>serviceId = servicesConstructed a,
                      RequestedServerVersion =
                        (case getProp (payload a) ''exchangeVersion'' of
                           JNum n \<Rightarrow> n | _ \<Rightarrow> Exchange2013_SP1),
                      Credentials = (getProp (payload a) ''username'', getProp (payload a) ''password''),
                      Url = getProp (payload a) ''url'',
                      XHRApi = Some (getProp (payload a) ''username'', getProp (payload a) ''password'')\<rparr>,
                 a\<lparr>servicesConstructed := Suc (servicesConstructed a),
                   exchangeService := Some
                     \<lparr>serviceId = servicesConstructed a,
                      RequestedServerVersion =
                        (case getProp (payload a) ''exchangeVersion'' of
                           JNum n \<Rightarrow> n | _ \<Rightarrow> Exchange2013_SP1),
                      Credentials = (getProp (payload a) ''username'', getProp (payload a) ''password''),
                      Url = getProp (payload a) ''url'',
                      XHRApi = Some (getProp (payload a) ''username'', getProp (payload a) ''password'')\<rparr>\<rparr>))
       \<and> (\<forall>thrown a1. getExchangeService lib a = (Inl thrown, a1) \<longrightarrow>
             (\<exists>e. (newExchangeService lib (getProp (payload a) ''exchangeVersion'') = Some e
                    \<or> newWebCredentials lib (getProp (payload a) ''username'') (getProp (payload a) ''password'') = Some e
                    \<or> newUri lib (getProp (payload a) ''url'') = Some e)
                   \<and> thrown = classify e)
             \<or> (getProp (payload a) ''authenticationMethod'' = JNum NTLM
                 \<and> (\<exists>ntlmError.
                       ntlmXhr lib (getProp (payload a) ''username'') (getProp (payload a) ''password'')
                         = Some ntlmError
                       \<and> thrown = classify (ntlmFailure ntlmError))))"
proof -
  have basic: "newExchangeService lib (getProp (payload a) ''exchangeVersion'') = None
          \<and> newWebCredentials lib (getProp (payload a) ''username'') (getProp (payload a) ''password'') = None
          \<and> newUri lib (getProp (payload a) ''url'') = None
          \<and> getProp (payload a) ''authenticationMethod'' \<noteq> JNum NTLM
          \<longrightarrow> getExchangeService lib a =
                (Inr \<lparr>serviceId = servicesConstructed a,
                      RequestedServerVersion =
                        (case getProp (payload a) ''exchangeVersion'' of
                           JNum n \<Rightarrow> n | _ \<Rightarrow> Exchange2013_SP1),
                      Credentials = (getProp (payload a) ''username'', getProp (payload a) ''password''),
                      Url = getProp (payload a) ''url'',
                      XHRApi = None\<rparr>,
                 a\<lparr>servicesConstructed := Suc (servicesConstructed a),
                   exchangeService := Some
                     \<lparr>serviceId = servicesConstructed a,
                      RequestedServerVersion =
                        (case getProp (payload a) ''exchangeVersion'' of
                           JNum n \<Rightarrow> n | _ \<Rightarrow> Exchange2013_SP1),
                      Credentials = (getProp (payload a) ''username'', getProp (payload a) ''password''),
                      Url = getProp (payload a) ''url'',
                      XHRApi = None\<rparr>\<rparr>)"
    using assms
    by (simp add: getExchangeService_def buildService_def requestedVersion_def Let_def)
  have ntlm: "newExchangeService lib (getProp (payload a) ''exchangeVersion'') = None
          \<and> newWebCredentials lib (getProp (payload a) ''username'') (getProp (payload a) ''password'') = None
          \<and> newUri lib (getProp (payload a) ''url'') = None
          \<and> getProp (payload a) ''authenticationMethod'' = JNum NTLM
          \<and> ntlmXhr lib (getProp (payload a) ''username'') (getProp (payload a) ''password'') = None
          \<longrightarrow> getExchangeService lib a =
                (Inr \<lparr>serviceId = servicesConstructed a,
                      RequestedServerVersion =
                        (case getProp (payload a) ''exchangeVersion'' of
                           JNum n \<Rightarrow> n | _ \<Rightarrow> Exchange2013_SP1),
                      Credentials = (getProp (payload a) ''username'', getProp (payload a) ''password''),
                      Url = getProp (payload a) ''url'',
                      XHRApi = Some (getProp (payload a) ''username'', getProp (payload a) ''password'')\<rparr>,
                 a\<lparr>servicesConstructed := Suc (servicesConstructed a),
                   exchangeService := Some
                     \<lparr>serviceId = servicesConstructed a,
                      RequestedServerVersion =
                        (case getProp (payload a) ''exchangeVersion'' of
                           JNum n \<Rightarrow> n | _ \<Rightarrow> Exchange2013_SP1),
                      Credentials = (getProp (payload a) ''username'', getProp (payload a) ''password''),
                      Url = getProp (payload a) ''url'',
                      XHRApi = Some (getProp (payload a) ''username'', getProp (payload a) ''password'')\<rparr>\<rparr>)"
    using assms
    by (simp add: getExchangeService_def buildService_def requestedVersion_def Let_def)
  have failure: "\<forall>thrown a1. getExchangeService lib a = (Inl thrown, a1) \<longrightarrow>
             (\<exists>e. (newExchangeService lib (getProp (payload a) ''exchangeVersion'') = Some e
                    \<or> newWebCredentials lib (getProp (payload a) ''username'') (getProp (payload a) ''password'') = Some e
                    \<or> newUri lib (getProp (payload a) ''url'') = Some e)
                   \<and> thrown = classify e)
             \<or> (getProp (payload a) ''authenticationMethod'' = JNum NTLM
                 \<and> (\<exists>ntlmError.
                       ntlmXhr lib (getProp (payload a) ''username'') (getProp (payload a) ''password'')
                         = Some ntlmError
                       \<and> thrown = classify (ntlmFailure ntlmError)))"
    using assms
    by (auto simp: getExchangeService_def buildService_def Let_def
        split: option.splits if_splits)
  show ?thesis using basic ntlm failure by blast
qed

theorem acquisition_has_no_range_check_witness:
  "exchangeService exampleAdapter = None
   \<and> getProp (payload exampleAdapter) ''authenticationMethod'' = JNum 7
   \<and> getProp (payload exampleAdapter) ''exchangeVersion'' = JNum 99
   \<and> getExchangeService memEws exampleAdapter = (Inr exampleHandle, connectedAdapter)
   \<and> XHRApi exampleHandle = None
   \<and> RequestedServerVersion exampleHandle = 99
   \<and> errors (validate exampleNewURL
        \<lparr>url = Some ''https://mail.company.com/ews/Exchange.asmx'',
         username = Some ''user@company.com'', password = Some ''secret'',
         authenticationMethod = Some 7, exchangeVersion = Some 99, useCompression = None\<rparr>)
       = [''Invalid authentication method'', ''Invalid Exchange version'']
   \<and> getProp (payload ntlmAdapter) ''authenticationMethod'' = JNum NTLM
   \<and> getProp (payload ntlmAdapter) ''exchangeVersion'' = JStr ''Exchange2016''
   \<and> getExchangeService memEws ntlmAdapter
       = (Inr ntlmHandle,
          ntlmAdapter\<lparr>servicesConstructed := 1, exchangeService := Some ntlmHandle\<rparr>)
   \<and> XHRApi ntlmHandle = Some (JStr ''user@company.com'', JStr ''secret'')
   \<and> RequestedServerVersion ntlmHandle = 5
   \<and> getExchangeService (memEws\<lparr>newUri := (\<lambda>u. Some (Error ''Invalid URI''))\<rparr>) exampleAdapter
       = (Inl (Error ''Invalid URI''), exampleAdapter\<lparr>servicesConstructed := 1\<rparr>)
   \<and> classify (Error ''Invalid URI'') = Error ''Invalid URI''"
proof -
  have h1: "exchangeService exampleAdapter = None"
    by (simp add: exampleAdapter_def)
  have h2: "truthy (getProp (payload exampleAdapter) ''url'')"
    by (simp add: exampleAdapter_def examplePayload_def)
  have h3: "truthy (getProp (payload exampleAdapter) ''username'')"
    by (simp add: exampleAdapter_def examplePayload_def)
  have h4: "truthy (getProp (payload exampleAdapter) ''password'')"
    by (simp add: exampleAdapter_def examplePayload_def)
  have m: "getProp (payload exampleAdapter) ''authenticationMethod'' = JNum 7"
    by (simp add: exampleAdapter_def examplePayload_def)
  then have h5: "getProp (payload exampleAdapter) ''authenticationMethod'' \<noteq> JNum NTLM"
    by (simp add: NTLM_def)
  have v: "getProp (payload exampleAdapter) ''exchangeVersion'' = JNum 99"
    by (simp add: exampleAdapter_def examplePayload_def)
  have lib: "newExchangeService memEws (getProp (payload exampleAdapter) ''exchangeVersion'') = None
          \<and> newWebCredentials memEws (getProp (payload exampleAdapter) ''username'')
               (getProp (payload exampleAdapter) ''password'') = None
          \<and> newUri memEws (getProp (payload exampleAdapter) ''url'') = None"
    by (simp add: memEws_def)
  have basic: "getExchangeService memEws exampleAdapter = (Inr exampleHandle, connectedAdapter)"
    using acquisition_has_no_range_check[OF h1 h2 h3 h4, of memEws] lib h5
    by (simp add: exampleAdapter_def examplePayload_def exampleHandle_def connectedAdapter_def)
  have n1: "exchangeService ntlmAdapter = None"
    by (simp add: ntlmAdapter_def)
  have n2: "truthy (getProp (payload ntlmAdapter) ''url'')"
    by (simp add: ntlmAdapter_def)
  have n3: "truthy (getProp (payload ntlmAdapter) ''username'')"
    by (simp add: ntlmAdapter_def)
  have n4: "truthy (getProp (payload ntlmAdapter) ''password'')"
    by (simp add: ntlmAdapter_def)
  have nm: "getProp (payload ntlmAdapter) ''authenticationMethod'' = JNum NTLM"
    by (simp add: ntlmAdapter_def NTLM_def)
  have nv: "getProp (payload ntlmAdapter) ''exchangeVersion'' = JStr ''Exchange2016''"
    by (simp add: ntlmAdapter_def)
  have nlib: "newExchangeService memEws (getProp (payload ntlmAdapter) ''exchangeVersion'') = None
          \<and> newWebCredentials memEws (getProp (payload ntlmAdapter) ''username'')
               (getProp (payload ntlmAdapter) ''password'') = None
          \<and> newUri memEws (getProp (payload ntlmAdapter) ''url'') = None
          \<and> ntlmXhr memEws (getProp (payload ntlmAdapter) ''username'')
               (getProp (payload ntlmAdapter) ''password'') = None"
    by (simp add: memEws_def)
  have ntlm: "getExchangeService memEws ntlmAdapter
       = (Inr ntlmHandle,
          ntlmAdapter\<lparr>servicesConstructed := 1, exchangeService := Some ntlmHandle\<rparr>)"
    using acquisition_has_no_range_check[OF n1 n2 n3 n4, of memEws] nlib nm
    by (simp add: ntlmAdapter_def ntlmHandle_def Exchange2013_SP1_def)
  have val: "errors (validate exampleNewURL
        \<lparr>url = Some ''https://mail.company.com/ews/Exchange.asmx'',
         username = Some ''user@company.com'', password = Some ''secret'',
         authenticationMethod = Some 7, exchangeVersion = Some 99, useCompression = None\<rparr>)
       = [''Invalid authentication method'', ''Invalid Exchange version'']"
    by code_simp
  have fields: "XHRApi exampleHandle = None \<and> RequestedServerVersion exampleHandle = 99
      \<and> XHRApi ntlmHandle = Some (JStr ''user@company.com'', JStr ''secret'')
      \<and> RequestedServerVersion ntlmHandle = 5"
    by (simp add: exampleHandle_def ntlmHandle_def)
  have failing: "getExchangeService (memEws\<lparr>newUri := (\<lambda>u. Some (Error ''Invalid URI''))\<rparr>)
        exampleAdapter
       = (Inl (Error ''Invalid URI''), exampleAdapter\<lparr>servicesConstructed := 1\<rparr>)"
    by (simp add: getExchangeService_def buildService_def classify_def memEws_def
        exampleAdapter_def examplePayload_def Let_def)
  have cl: "classify (Error ''Invalid URI'') = Error ''Invalid URI''"
  proof -
    have "\<exists>e. (newExchangeService (memEws\<lparr>newUri := (\<lambda>u. Some (Error ''Invalid URI''))\<rparr>)
                  (getProp (payload exampleAdapter) ''exchangeVersion'') = Some e
              \<or> newWebCredentials (memEws\<lparr>newUri := (\<lambda>u. Some (Error ''Invalid URI''))\<rparr>)
                  (getProp (payload exampleAdapter) ''username'')
                  (getProp (payload exampleAdapter) ''password'') = Some e
              \<or> newUri (memEws\<lparr>newUri := (\<lambda>u. Some (Error ''Invalid URI''))\<rparr>)
                  (getProp (payload exampleAdapter) ''url'') = Some e)
             \<and> Error ''Invalid URI'' = classify e"
      using acquisition_has_no_range_check[OF h1 h2 h3 h4,
          of "memEws\<lparr>newUri := (\<lambda>u. Some (Error ''Invalid URI''))\<rparr>"] failing h5
      by blast
    then show ?thesis by (auto simp: memEws_def)
  qed
  show ?thesis using h1 m v basic val nm nv ntlm fields failing cl by blast
qed

subsection \<open>Creating, updating and deleting events\<close>

text \<open>
  A start or end time that is not a date: the operation is rejected with the parser's error
  and nothing is saved.
\<close>

lemma createEvent_rejects_bad_dates:
  assumes "getExchangeService lib a = (Inr service, a1)"
    and "DateTime_Parse lib (startTime event) = Inl e
         \<or> (\<exists>parsedStart. DateTime_Parse lib (startTime event) = Inr parsedStart)
            \<and> DateTime_Parse lib (endTime event) = Inl e"
  shows "createEvent lib event a w = (Inl e, a1, w)"
  using assms
  by (auto simp: createEvent_def fillAppointment_def)

text \<open>
  C7. For every event, \<open>createEvent\<close> parses the start and end time and saves an
  appointment with subject = title, start and end = the parsed timestamps, location and
  body defaulting to the empty string, and required attendees = the e-mail addresses of the
  attendees followed by those of the team members, one entry each, duplicates kept. When
  the save succeeds with identifier \<open>u\<close>, the result has \<open>uid\<close> and \<open>id\<close> equal to
  \<open>u\<close> and the other four fields blank. An event whose start or end time is not a date
  is rejected with the parser's error before anything is saved.
\<close>

theorem createEvent_builds_and_returns:
  assumes "getExchangeService lib a = (Inr service, a1)"
  shows "(DateTime_Parse lib (startTime event) = Inr parsedStart
          \<and> DateTime_Parse lib (endTime event) = Inr parsedEnd
          \<and> Save lib service
           \<lparr>ItemId = None, Subject = title event,
            Start = parsedStart, End = parsedEnd,
            Location = (case location event of None \<Rightarrow> [] | Some l \<Rightarrow> l),
            Body = (case description event of None \<Rightarrow> [] | Some d \<Rightarrow> d),
            RequiredAttendees =
              map email (attendees event)
              @ (case team event of None \<Rightarrow> [] | Some t \<Rightarrow> map email (members t)),
            FreeBusyStatus = Busy\<rparr> w = (Inr u, w1)
          \<longrightarrow> createEvent lib event a w
                = (Inr \<lparr>uid = u, id' = u, password' = [], type' = [], url' = [],
                        additionalInfo = []\<rparr>, a1, w1))
       \<and> (DateTime_Parse lib (startTime event) = Inl e
           \<or> (\<exists>s. DateTime_Parse lib (startTime event) = Inr s)
              \<and> DateTime_Parse lib (endTime event) = Inl e
          \<longrightarrow> createEvent lib event a w = (Inl e, a1, w))"
proof -
  have ok: "createEvent lib event a w
                = (Inr \<lparr>uid = u, id' = u, password' = [], type' = [], url' = [],
                        additionalInfo = []\<rparr>, a1, w1)"
    if "DateTime_Parse lib (startTime event) = Inr parsedStart"
      and "DateTime_Parse lib (endTime event) = Inr parsedEnd"
      and "Save lib service
           \<lparr>ItemId = None, Subject = title event,
            Start = parsedStart, End = parsedEnd,
            Location = (case location event of None \<Rightarrow> [] | Some l \<Rightarrow> l),
            Body = (case description event of None \<Rightarrow> [] | Some d \<Rightarrow> d),
            RequiredAttendees =
              map email (attendees event)
              @ (case team event of None \<Rightarrow> [] | Some t \<Rightarrow> map email (members t)),
            FreeBusyStatus = Busy\<rparr> w = (Inr u, w1)"
    using assms that(3)
    by (simp add: createEvent_def fillAppointment_new[OF that(1,2)] eventResult_def)
  have bad: "createEvent lib event a w = (Inl e, a1, w)"
    if "DateTime_Parse lib (startTime event) = Inl e
           \<or> (\<exists>s. DateTime_Parse lib (startTime event) = Inr s)
              \<and> DateTime_Parse lib (endTime event) = Inl e"
    using createEvent_rejects_bad_dates[OF assms that] .
  show ?thesis using ok bad by blast
qed

theorem createEvent_builds_and_returns_witness:
  "getExchangeService memEws connectedAdapter = (Inr exampleHandle, connectedAdapter)
   \<and> DateTime_Parse memEws (startTime exampleEvent) = Inr 1704103200000
   \<and> DateTime_Parse memEws (endTime exampleEvent) = Inr 1704106800000
   \<and> createEvent memEws exampleEvent connectedAdapter exampleServer
       = (Inr \<lparr>uid = ''i'', id' = ''i'', password' = [], type' = [], url' = [],
               additionalInfo = []\<rparr>, connectedAdapter, createdServer)
   \<and> map (\<lambda>kv. RequiredAttendees (snd kv)) (storedItems createdServer)
       = [ [''a@x.org'', ''b@x.org'', ''a@x.org''] ]
   \<and> DateTime_Parse memEws ''tomorrow'' = Inl (Error ''Invalid date'')
   \<and> createEvent memEws (exampleEvent\<lparr>startTime := ''tomorrow''\<rparr>) connectedAdapter exampleServer
       = (Inl (Error ''Invalid date''), connectedAdapter, exampleServer)"
proof -
  have "createEvent memEws exampleEvent connectedAdapter exampleServer
       = (Inr \<lparr>uid = ''i'', id' = ''i'', password' = [], type' = [], url' = [],
               additionalInfo = []\<rparr>, connectedAdapter, createdServer)"
    using createEvent_builds_and_returns[OF example_reacquire,
        where event = exampleEvent and parsedStart = 1704103200000
          and parsedEnd = 1704106800000 and w = exampleServer and u = "''i''"
          and ?w1.0 = createdServer]
      example_parse_start example_parse_end example_save
    by blast
  moreover have "map (\<lambda>kv. RequiredAttendees (snd kv)) (storedItems createdServer)
       = [ [''a@x.org'', ''b@x.org'', ''a@x.org''] ]"
    by (simp add: createdServer_def exampleAppointment_def)
  moreover have p: "DateTime_Parse memEws ''tomorrow'' = Inl (Error ''Invalid date'')"
    by (simp add: memEws_def exampleDateParse_def)
  moreover have "createEvent memEws (exampleEvent\<lparr>startTime := ''tomorrow''\<rparr>) connectedAdapter
        exampleServer
       = (Inl (Error ''Invalid date''), connectedAdapter, exampleServer)"
    using createEvent_builds_and_returns[OF example_reacquire,
        where event = "exampleEvent\<lparr>startTime := ''tomorrow''\<rparr>"
          and e = "Error ''Invalid date''" and w = exampleServer] p
    by simp
  ultimately show ?thesis
    using example_reacquire example_parse_start example_parse_end by blast
qed

text \<open>
  C8. When the server reports no item for \<open>uid\<close>, that is when binding the identifier
  is rejected, \<open>updateEvent\<close> and \<open>deleteEvent\<close> fail with the error of that rejection.
  On a server that honours deletion, after a \<open>deleteEvent\<close> that succeeded a following
  \<open>updateEvent\<close> or \<open>deleteEvent\<close> on the same identifier fails with a not-found error:
  the successful operation has bound the item and deleted it on the server.
\<close>

theorem missing_item_fails_not_found:
  "(getExchangeService lib a = (Inr service, a1) \<and> Appointment_Bind lib service u w = (Inl notFound, w1)
      \<longrightarrow> updateEvent lib u event a w = (Inl notFound, a1, w1)
          \<and> deleteEvent lib u a w = (Inl notFound, a1, w1))
   \<and> (forgetsDeleted lib isNotFound \<and> deleteEvent lib u a w = (Inr (), a1, w1) \<longrightarrow>
        (\<exists>e w2. isNotFound e
           \<and> updateEvent lib u event a1 w1 = (Inl e, a1, w2)
           \<and> deleteEvent lib u a1 w1 = (Inl e, a1, w2)))"
proof -
  have one: "getExchangeService lib a = (Inr service, a1) \<and> Appointment_Bind lib service u w = (Inl notFound, w1)
      \<longrightarrow> updateEvent lib u event a w = (Inl notFound, a1, w1)
          \<and> deleteEvent lib u a w = (Inl notFound, a1, w1)"
    by (simp add: updateEvent_def deleteEvent_def)
  have two: "\<exists>e w2. isNotFound e
           \<and> updateEvent lib u event a1 w1 = (Inl e, a1, w2)
           \<and> deleteEvent lib u a1 w1 = (Inl e, a1, w2)"
    if contract: "forgetsDeleted lib isNotFound"
      and d: "deleteEvent lib u a w = (Inr (), a1, w1)"
  proof -
    obtain cached where g: "getExchangeService lib a = (Inr cached, a1)"
      using d by (auto simp: deleteEvent_def split: prod.splits sum.splits option.splits)
    obtain ap w0 where b: "Appointment_Bind lib cached u w = (Inr ap, w0)"
      and del: "Delete lib cached ap w0 = (None, w1)"
      using d g by (auto simp: deleteEvent_def split: prod.splits sum.splits option.splits)
    obtain e w2 where nb: "Appointment_Bind lib cached u w1 = (Inl e, w2)" and nf: "isNotFound e"
      using contract b del unfolding forgetsDeleted_def by blast
    have c: "exchangeService a1 = Some cached" using g by (rule getExchangeService_Inr)
    have "getExchangeService lib a1 = (Inr cached, a1)"
      using c by (rule getExchangeService_cached)
    then have "updateEvent lib u event a1 w1 = (Inl e, a1, w2)
                 \<and> deleteEvent lib u a1 w1 = (Inl e, a1, w2)"
      using nb by (simp add: updateEvent_def deleteEvent_def)
    then show ?thesis using nf by blast
  qed
  show ?thesis using one two by blast
qed

theorem missing_item_fails_not_found_witness:
  "Appointment_Bind memEws exampleHandle ''zzz'' exampleServer
     = (Inl (Error ''The specified object was not found in the store.''),
        exampleServer\<lparr>requests := 1\<rparr>)
   \<and> updateEvent memEws ''zzz'' exampleEvent connectedAdapter exampleServer
     = (Inl (Error ''The specified object was not found in the store.''), connectedAdapter,
        exampleServer\<lparr>requests := 1\<rparr>)
   \<and> createEvent memEws exampleEvent connectedAdapter exampleServer
     = (Inr \<lparr>uid = ''i'', id' = ''i'', password' = [], type' = [], url' = [],
             additionalInfo = []\<rparr>, connectedAdapter, createdServer)
   \<and> deleteEvent memEws ''i'' connectedAdapter createdServer
     = (Inr (), connectedAdapter, deletedServer)
   \<and> fst (updateEvent memEws ''i'' exampleEvent connectedAdapter deletedServer)
     = Inl (Error ''The specified object was not found in the store.'')
   \<and> fst (deleteEvent memEws ''i'' connectedAdapter deletedServer)
     = Inl (Error ''The specified object was not found in the store.'')"
proof -
  have one: "updateEvent memEws ''zzz'' exampleEvent connectedAdapter exampleServer
     = (Inl (Error ''The specified object was not found in the store.''), connectedAdapter,
        exampleServer\<lparr>requests := 1\<rparr>)"
    using missing_item_fails_not_found[where lib = memEws and a = connectedAdapter
        and service = exampleHandle and ?a1.0 = connectedAdapter and u = "''zzz''"
        and w = exampleServer
        and notFound = "Error ''The specified object was not found in the store.''"
        and ?w1.0 = "exampleServer\<lparr>requests := 1\<rparr>" and event = exampleEvent]
      example_reacquire example_bind_unknown
    by blast
  have "\<exists>e w2. e = Error ''The specified object was not found in the store.''
           \<and> updateEvent memEws ''i'' exampleEvent connectedAdapter deletedServer
               = (Inl e, connectedAdapter, w2)
           \<and> deleteEvent memEws ''i'' connectedAdapter deletedServer
               = (Inl e, connectedAdapter, w2)"
    using missing_item_fails_not_found[where lib = memEws and a = connectedAdapter
        and ?a1.0 = connectedAdapter and u = "''i''" and w = createdServer
        and ?w1.0 = deletedServer and event = exampleEvent
        and isNotFound = "\<lambda>e. e = Error ''The specified object was not found in the store.''"]
      memEws_forgetsDeleted example_delete
    by blast
  then have two: "fst (updateEvent memEws ''i'' exampleEvent connectedAdapter deletedServer)
     = Inl (Error ''The specified object was not found in the store.'')
   \<and> fst (deleteEvent memEws ''i'' connectedAdapter deletedServer)
     = Inl (Error ''The specified object was not found in the store.'')"
    by auto
  show ?thesis using one two example_bind_unknown example_create example_delete by blast
qed

subsection \<open>Calendars and availability\<close>

text \<open>
  C2. For every result of the folder search, \<open>listCalendars\<close> returns one record for each
  folder whose parent is not the deleted-items folder, in the order of the search result,
  and none for a folder whose parent is that folder; the record has \<open>externalId\<close> = the
  folder's identifier, \<open>name\<close> = its display name or the empty string when absent,
  \<open>primary\<close> = it has at least one child folder, and \<open>integration\<close> = the adapter's
  integration name, which the constructor sets to "exchange_calendar".
\<close>

theorem listCalendars_excludes_deleted:
  assumes "getExchangeService lib a = (Inr service, a1)"
    and "Folder_Bind_DeletedItems lib service w = (Inr deletedItemsFolder, w1)"
    and "FindFolders lib service w1 = (Inr folders, w2)"
  shows "listCalendars lib a w
           = (Inr (map (\<lambda>folder. \<lparr>externalId = FolderId folder,
                                  name = (case DisplayName folder of None \<Rightarrow> [] | Some n \<Rightarrow> n),
                                  primary = (0 < ChildFolderCount folder),
                                  integration = integrationName a\<rparr>)
                     (filter (\<lambda>folder. ParentFolderId folder \<noteq> FolderId deletedItemsFolder) folders)),
              a1, w2)
       \<and> (\<forall>folder \<in> set folders. ParentFolderId folder = FolderId deletedItemsFolder \<longrightarrow>
             folder \<notin> set (filter (\<lambda>folder. ParentFolderId folder \<noteq> FolderId deletedItemsFolder) folders))"
proof -
  have "integrationName a1 = integrationName a"
    using assms(1)
    by (auto simp: getExchangeService_def buildService_def Let_def
        split: option.splits prod.splits sum.splits if_splits)
  then show ?thesis
    using assms by (simp add: listCalendars_def toCalendar_def)
qed

theorem listCalendars_excludes_deleted_witness:
  "getExchangeService memEws exampleAdapter = (Inr exampleHandle, connectedAdapter)
   \<and> Folder_Bind_DeletedItems memEws exampleHandle exampleServer
     = (Inr \<lparr>FolderId = ''deleteditems'', ParentFolderId = ''root'',
              DisplayName = Some ''Deleted Items'', ChildFolderCount = 0\<rparr>,
        exampleServer\<lparr>requests := 1\<rparr>)
   \<and> FindFolders memEws exampleHandle (exampleServer\<lparr>requests := 1\<rparr>)
     = (Inr (mailFolders exampleServer), exampleServer\<lparr>requests := 2\<rparr>)
   \<and> map FolderId (mailFolders exampleServer) = [''cal1'', ''cal2'', ''cal3'']
   \<and> listCalendars memEws exampleAdapter exampleServer
     = (Inr [\<lparr>externalId = ''cal1'', name = ''Calendar'', primary = True,
              integration = ''exchange_calendar''\<rparr>,
             \<lparr>externalId = ''cal3'', name = [], primary = False,
              integration = ''exchange_calendar''\<rparr>],
        connectedAdapter, exampleServer\<lparr>requests := 2\<rparr>)"
proof -
  have "listCalendars memEws exampleAdapter exampleServer
     = (Inr [\<lparr>externalId = ''cal1'', name = ''Calendar'', primary = True,
              integration = ''exchange_calendar''\<rparr>,
             \<lparr>externalId = ''cal3'', name = [], primary = False,
              integration = ''exchange_calendar''\<rparr>],
        connectedAdapter, exampleServer\<lparr>requests := 2\<rparr>)"
    using listCalendars_excludes_deleted[OF example_acquire example_bind_deleted example_find_folders]
    by (simp add: exampleServer_def exampleAdapter_def)
  moreover have "map FolderId (mailFolders exampleServer) = [''cal1'', ''cal2'', ''cal3'']"
    by (simp add: exampleServer_def)
  ultimately show ?thesis
    using example_acquire example_bind_deleted example_find_folders by blast
qed

text \<open>
  A query that is rejected makes the whole operation fail with one of the rejections: no
  partial result is returned.
\<close>

lemma rejections_set: "set (rejections rs) = {e. Inl e \<in> set rs}"
proof (induction rs)
  case Nil
  then show ?case by simp
next
  case (Cons r rs)
  then show ?case by (cases r) auto
qed

lemma Promise_all_rejected:
  assumes "Inl e \<in> set rs"
  shows "\<exists>e'. Promise_all k rs = Inl e' \<and> Inl e' \<in> set rs"
proof -
  have ne: "rejections rs \<noteq> []" using assms rejections_set[of rs] by auto
  then obtain x xs where r: "rejections rs = x # xs" by (cases "rejections rs") auto
  have "k mod length (x # xs) < length (x # xs)" by simp
  then have "(x # xs) ! (k mod length (x # xs)) \<in> set (rejections rs)"
    unfolding r by (rule nth_mem)
  then have "Inl ((x # xs) ! (k mod length (x # xs))) \<in> set rs"
    using rejections_set[of rs] by auto
  then show ?thesis by (simp add: Promise_all_def r)
qed

lemma queryCalendars_bad_date:
  assumes "exchangeService a = Some service"
    and "DateTime_Parse lib dateFrom = Inl e
         \<or> (\<exists>parsedFrom. DateTime_Parse lib dateFrom = Inr parsedFrom)
            \<and> DateTime_Parse lib dateTo = Inl e"
  shows "queryCalendars lib dateFrom dateTo cals a w = (map (\<lambda>c. Inl e) cals, a, w)"
  by (induction cals) (simp_all add: queryCalendar_rejects_bad_date[OF assms])

lemma Promise_all_same_rejection:
  fixes e :: exn
  assumes "cals \<noteq> []"
  shows "Promise_all k (map (\<lambda>c. Inl e) cals) = (Inl e :: exn + 'b list)"
proof -
  let ?ps = "map (\<lambda>c. Inl e) cals :: (exn + 'b) list"
  have m: "Inl e \<in> set ?ps" using assms by (cases cals) auto
  from Promise_all_rejected[OF m, of k]
  obtain e' where "Promise_all k ?ps = Inl e'" and "Inl e' \<in> set ?ps"
    by blast
  then show ?thesis by auto
qed

text \<open>
  C1. When the listing succeeds, the two dates parse and every appointment query succeeds,
  \<open>getAvailability\<close> returns exactly the concatenation, over the listed calendars whose
  \<open>externalId\<close> occurs in \<open>selectedCalendars\<close> and in the order of the listing, of the
  start and end of the appointments of each result set whose free/busy status is not
  \<open>Free\<close>: an interval is in the result exactly when a non-free appointment of some
  result set has it. With an empty \<open>selectedCalendars\<close> the result is the empty list
  whenever the listing succeeds, and no query is issued. With a date that does not parse
  and at least one selected listed calendar, the operation is rejected with the parser's
  error and no query is issued.
\<close>

theorem getAvailability_busy_intervals:
  assumes "listCalendars lib a w = (Inr calendars, a1, w1)"
  shows "(exchangeService a1 = Some service
          \<and> DateTime_Parse lib dateFrom = Inr parsedFrom
          \<and> DateTime_Parse lib dateTo = Inr parsedTo
          \<and> fetchAll lib service parsedFrom parsedTo
               (map externalId
                  (filter (\<lambda>lcal. externalId lcal \<in> externalId ` set selectedCalendars) calendars))
               w1 = (map Inr results, w2)
          \<longrightarrow> getAvailability lib dateFrom dateTo selectedCalendars a w
                = (Inr (concat (map busyIntervals results)), a1, w2)
              \<and> (\<forall>iv. iv \<in> set (concat (map busyIntervals results)) \<longleftrightarrow>
                    (\<exists>items \<in> set results. \<exists>ap \<in> set items.
                        FreeBusyStatus ap \<noteq> Free \<and> iv = \<lparr>start = Start ap, end' = End ap\<rparr>)))
       \<and> getAvailability lib dateFrom dateTo [] a w = (Inr [], a1, w1)
       \<and> ((DateTime_Parse lib dateFrom = Inl e
            \<or> (\<exists>parsedFrom. DateTime_Parse lib dateFrom = Inr parsedFrom)
               \<and> DateTime_Parse lib dateTo = Inl e)
           \<and> filter (\<lambda>lcal. externalId lcal \<in> externalId ` set selectedCalendars) calendars \<noteq> []
           \<longrightarrow> getAvailability lib dateFrom dateTo selectedCalendars a w = (Inl e, a1, w1))"
proof -
  have sel: "(\<lambda>lcal. list_ex (\<lambda>rcal. externalId lcal = externalId rcal) selectedCalendars)
           = (\<lambda>lcal. externalId lcal \<in> externalId ` set selectedCalendars)"
    by (auto simp: list_ex_iff)
  have main: "getAvailability lib dateFrom dateTo selectedCalendars a w
           = (Inr (concat (map busyIntervals results)), a1, w2)"
    if c: "exchangeService a1 = Some service"
      and pf: "DateTime_Parse lib dateFrom = Inr parsedFrom"
      and pt: "DateTime_Parse lib dateTo = Inr parsedTo"
      and f: "fetchAll lib service parsedFrom parsedTo
               (map externalId
                  (filter (\<lambda>lcal. externalId lcal \<in> externalId ` set selectedCalendars) calendars))
               w1 = (map Inr results, w2)"
  proof -
    have q: "queryCalendars lib dateFrom dateTo
             (filter (\<lambda>lcal. externalId lcal \<in> externalId ` set selectedCalendars) calendars) a1 w1
           = (map (\<lambda>items. Inr (busyIntervals items)) results, a1, w2)"
      using queryCalendars_all_ok[OF c pf pt f] .
    show ?thesis
      by (simp add: getAvailability_def assms sel q Promise_all_map_fulfilled)
  qed
  have mem: "\<forall>iv. iv \<in> set (concat (map busyIntervals results)) \<longleftrightarrow>
                (\<exists>items \<in> set results. \<exists>ap \<in> set items.
                    FreeBusyStatus ap \<noteq> Free \<and> iv = \<lparr>start = Start ap, end' = End ap\<rparr>)"
    by (auto simp: busyIntervals_def)
  have empty: "getAvailability lib dateFrom dateTo [] a w = (Inr [], a1, w1)"
    by (simp add: getAvailability_def assms Promise_all_def)
  have bad: "getAvailability lib dateFrom dateTo selectedCalendars a w = (Inl e, a1, w1)"
    if p: "DateTime_Parse lib dateFrom = Inl e
            \<or> (\<exists>parsedFrom. DateTime_Parse lib dateFrom = Inr parsedFrom)
               \<and> DateTime_Parse lib dateTo = Inl e"
      and ne: "filter (\<lambda>lcal. externalId lcal \<in> externalId ` set selectedCalendars) calendars \<noteq> []"
  proof -
    obtain cached where c: "exchangeService a1 = Some cached"
      using listCalendars_Inr[OF assms] by blast
    show ?thesis
      by (simp add: getAvailability_def assms sel queryCalendars_bad_date[OF c p]
          Promise_all_same_rejection[OF ne])
  qed
  show ?thesis using main mem empty bad by blast
qed

theorem getAvailability_busy_intervals_witness:
  "listCalendars memEws exampleAdapter exampleServer
     = (Inr exampleCalendars, connectedAdapter, exampleServer\<lparr>requests := 2\<rparr>)
   \<and> exchangeService connectedAdapter = Some exampleHandle
   \<and> DateTime_Parse memEws ''2024-01-01T00:00:00Z'' = Inr 1704067200000
   \<and> DateTime_Parse memEws ''2024-01-02T00:00:00Z'' = Inr 1704153600000
   \<and> fetchAll memEws exampleHandle 1704067200000 1704153600000
        (map externalId
           (filter (\<lambda>lcal. externalId lcal \<in> externalId ` set exampleSelected) exampleCalendars))
        (exampleServer\<lparr>requests := 2\<rparr>)
     = (map Inr exampleResults, exampleServer\<lparr>requests := 4\<rparr>)
   \<and> getAvailability memEws ''2024-01-01T00:00:00Z'' ''2024-01-02T00:00:00Z'' exampleSelected
        exampleAdapter exampleServer
     = (Inr [\<lparr>start = 1704103200000, end' = 1704106800000\<rparr>,
             \<lparr>start = 1704117600000, end' = 1704121200000\<rparr>], connectedAdapter,
        exampleServer\<lparr>requests := 4\<rparr>)
   \<and> getAvailability memEws ''not a date'' ''2024-01-02T00:00:00Z'' [] exampleAdapter exampleServer
     = (Inr [], connectedAdapter, exampleServer\<lparr>requests := 2\<rparr>)
   \<and> DateTime_Parse memEws ''not a date'' = Inl (Error ''Invalid date'')
   \<and> getAvailability memEws ''not a date'' ''2024-01-02T00:00:00Z'' exampleSelected exampleAdapter
        exampleServer
     = (Inl (Error ''Invalid date''), connectedAdapter, exampleServer\<lparr>requests := 2\<rparr>)"
proof -
  have c: "exchangeService connectedAdapter = Some exampleHandle"
    by (simp add: connectedAdapter_def)
  have f: "fetchAll memEws exampleHandle 1704067200000 1704153600000
        (map externalId
           (filter (\<lambda>lcal. externalId lcal \<in> externalId ` set exampleSelected) exampleCalendars))
        (exampleServer\<lparr>requests := 2\<rparr>)
     = (map Inr exampleResults, exampleServer\<lparr>requests := 4\<rparr>)"
    by (simp add: exampleSelected_def exampleCalendars_def exampleResults_def memEws_def
        exampleServer_def)
  have "getAvailability memEws ''2024-01-01T00:00:00Z'' ''2024-01-02T00:00:00Z'' exampleSelected
        exampleAdapter exampleServer
     = (Inr [\<lparr>start = 1704103200000, end' = 1704106800000\<rparr>,
             \<lparr>start = 1704117600000, end' = 1704121200000\<rparr>], connectedAdapter,
        exampleServer\<lparr>requests := 4\<rparr>)"
    using getAvailability_busy_intervals[OF example_listCalendars,
        where service = exampleHandle and dateFrom = "''2024-01-01T00:00:00Z''"
          and dateTo = "''2024-01-02T00:00:00Z''" and parsedFrom = 1704067200000
          and parsedTo = 1704153600000 and selectedCalendars = exampleSelected
          and results = exampleResults and ?w2.0 = "exampleServer\<lparr>requests := 4\<rparr>"]
      c example_parse_from example_parse_to f
    by (simp add: busyIntervals_def exampleResults_def)
  moreover have "getAvailability memEws ''not a date'' ''2024-01-02T00:00:00Z'' [] exampleAdapter
        exampleServer
     = (Inr [], connectedAdapter, exampleServer\<lparr>requests := 2\<rparr>)"
    using getAvailability_busy_intervals[OF example_listCalendars,
        where dateFrom = "''not a date''" and dateTo = "''2024-01-02T00:00:00Z''"]
    by blast
  moreover have p: "DateTime_Parse memEws ''not a date'' = Inl (Error ''Invalid date'')"
    by (simp add: memEws_def exampleDateParse_def)
  moreover have "getAvailability memEws ''not a date'' ''2024-01-02T00:00:00Z'' exampleSelected
        exampleAdapter exampleServer
     = (Inl (Error ''Invalid date''), connectedAdapter, exampleServer\<lparr>requests := 2\<rparr>)"
  proof -
    have ne: "filter (\<lambda>lcal. externalId lcal \<in> externalId ` set exampleSelected) exampleCalendars
                \<noteq> []"
      by (simp add: exampleSelected_def exampleCalendars_def)
    show ?thesis
      using getAvailability_busy_intervals[OF example_listCalendars,
          where dateFrom = "''not a date''" and dateTo = "''2024-01-02T00:00:00Z''"
            and selectedCalendars = exampleSelected and e = "Error ''Invalid date''"]
        p ne
      by blast
  qed
  ultimately show ?thesis
    using example_listCalendars c example_parse_from example_parse_to f by blast
qed

end
